theory Spec2Isabelle
  imports Complex_Main "HOL-Library.Sublist"
begin

section \<open>DSY Core: credential pool, output parser, prompt optimizer, generation router\<close>

text \<open>
  A shallow embedding of \<^verbatim>\<open>src/services/geminiService.js\<close> (which also holds the code
  generator router), of the SambaNova service and of the parts of the callers that the
  verified properties depend on.

  Conventions of the embedding.
  \<^item> A JavaScript string is a \<^typ>\<open>string\<close>; one \<^typ>\<open>char\<close> stands for one code unit in
    the range 0..255, and \<open>length\<close> is the \<^verbatim>\<open>.length\<close> of the source.
  \<^item> \<^verbatim>\<open>null\<close> and \<^verbatim>\<open>undefined\<close> are \<open>None\<close>; an exception that leaves a function is
    \<open>Inl\<close> of a sum type.
  \<^item> The module-level set \<^verbatim>\<open>failedKeys\<close> is passed in and returned.
  \<^item> \<^verbatim>\<open>Math.random\<close>, \<^verbatim>\<open>fetch\<close>, \<^verbatim>\<open>JSON.parse\<close> and the collaborators whose
    code is outside the repository sources are parameters; every theorem holds for all
    of their values.
\<close>

subsection \<open>Credential pool\<close>

type_synonym key = string

text \<open>
  \<^verbatim>\<open>Math.floor(Math.random() * n)\<close> for a positive length \<open>n\<close> is some index below \<open>n\<close>,
  and every such index can come out. The draw \<open>r\<close> is any natural number and the index
  is \<open>r mod n\<close>, which ranges over exactly the same indices.
\<close>

definition random_index :: "nat \<Rightarrow> nat \<Rightarrow> nat" where
  "random_index r n = r mod n"

text \<open>
  \<^verbatim>\<open>getRandomKey(excludeKey = null)\<close>, lines 27 to 44. The arguments are the configured
  list \<^verbatim>\<open>GEMINI_API_KEYS\<close>, the current \<^verbatim>\<open>failedKeys\<close>, the excluded key and the
  random draw; the result is the returned key and the \<^verbatim>\<open>failedKeys\<close> left behind.
\<close>

definition getRandomKey :: "key list \<Rightarrow> key set \<Rightarrow> key option \<Rightarrow> nat \<Rightarrow> key option \<times> key set" where
  "getRandomKey keys failedKeys excludeKey r =
     (if length keys = 0 then (None, failedKeys)
      else
        let availableKeys = filter (\<lambda>k. k \<notin> failedKeys \<and> Some k \<noteq> excludeKey) keys in
        if length availableKeys = 0 then
          (let resetKeys = filter (\<lambda>k. Some k \<noteq> excludeKey) keys in
           if length resetKeys = 0 then (Some (keys ! 0), {})
           else (Some (resetKeys ! random_index r (length resetKeys)), {}))
        else (Some (availableKeys ! random_index r (length availableKeys)), failedKeys))"

text \<open>\<^verbatim>\<open>markKeyFailed(key)\<close> and \<^verbatim>\<open>resetFailedKeys()\<close>.\<close>

definition markKeyFailed :: "key \<Rightarrow> key set \<Rightarrow> key set" where
  "markKeyFailed k failedKeys = insert k failedKeys"

definition resetFailedKeys :: "key set \<Rightarrow> key set" where
  "resetFailedKeys failedKeys = {}"

subsection \<open>JavaScript string operations\<close>

text \<open>
  \<^verbatim>\<open>s.indexOf(p)\<close>: the index of the first occurrence of \<open>p\<close> in \<open>s\<close>, \<open>None\<close> for -1.
  \<^verbatim>\<open>s.includes(p)\<close> says whether there is one.
\<close>

fun indexOf :: "string \<Rightarrow> string \<Rightarrow> nat option" where
  "indexOf [] p = (if p = [] then Some 0 else None)"
| "indexOf (c # cs) p = (if prefix p (c # cs) then Some 0 else map_option Suc (indexOf cs p))"

definition includes_str :: "string \<Rightarrow> string \<Rightarrow> bool" where
  "includes_str s p = (indexOf s p \<noteq> None)"

text \<open>
  The replacement text of \<^verbatim>\<open>String.prototype.replace\<close> when the pattern is a string
  (no capture groups): \<^verbatim>\<open>$$\<close> is a dollar sign, \<^verbatim>\<open>$&\<close> the matched text, \<^verbatim>\<open>$`\<close> the
  text before the match, \<^verbatim>\<open>$'\<close> the text after it; any other character, and a dollar
  sign followed by anything else, stands for itself.
\<close>

fun getSubstitution :: "string \<Rightarrow> string \<Rightarrow> string \<Rightarrow> string \<Rightarrow> string" where
  "getSubstitution matched before after (c # d # r) =
     (if c = CHR ''$'' \<and> d = CHR ''$'' then CHR ''$'' # getSubstitution matched before after r
      else if c = CHR ''$'' \<and> d = CHR ''&'' then matched @ getSubstitution matched before after r
      else if c = CHR ''$'' \<and> d = CHR 0x60 then before @ getSubstitution matched before after r
      else if c = CHR ''$'' \<and> d = CHR 0x27 then after @ getSubstitution matched before after r
      else c # getSubstitution matched before after (d # r))"
| "getSubstitution matched before after r = r"

text \<open>\<^verbatim>\<open>s.replace(p, repl)\<close> with a string pattern: the first occurrence only.\<close>

definition replace :: "string \<Rightarrow> string \<Rightarrow> string \<Rightarrow> string" where
  "replace s p repl =
     (case indexOf s p of
        None \<Rightarrow> s
      | Some i \<Rightarrow>
          (let before = take i s; after = drop (i + length p) s
           in before @ getSubstitution p before after repl @ after))"

text \<open>
  Character classes of the regular expressions and of \<^verbatim>\<open>trim\<close>, on code units below
  256: \<^verbatim>\<open>\s\<close> (tab, line feed, vertical tab, form feed, carriage return, space,
  no-break space), \<^verbatim>\<open>\w\<close> (ASCII letters, digits, underscore), and the lower-case
  form of an ASCII letter, which is what the \<^verbatim>\<open>i\<close> flag and \<^verbatim>\<open>toLowerCase\<close> compare on
  the texts matched here.
\<close>

definition is_space :: "char \<Rightarrow> bool" where
  "is_space c = (c \<in> set [CHR 0x09, CHR 0x0A, CHR 0x0B, CHR 0x0C, CHR 0x0D, CHR 0x20, CHR 0xA0])"

definition is_word :: "char \<Rightarrow> bool" where
  "is_word c = (c \<in> set (''abcdefghijklmnopqrstuvwxyz'' @ ''ABCDEFGHIJKLMNOPQRSTUVWXYZ'' @ ''0123456789_''))"

definition lower :: "char \<Rightarrow> char" where
  "lower c =
     (case map_of (zip ''ABCDEFGHIJKLMNOPQRSTUVWXYZ'' ''abcdefghijklmnopqrstuvwxyz'') c of
        Some d \<Rightarrow> d
      | None \<Rightarrow> c)"

definition toLowerCase :: "string \<Rightarrow> string" where
  "toLowerCase s = map lower s"

definition trim :: "string \<Rightarrow> string" where
  "trim s = rev (dropWhile is_space (rev (dropWhile is_space s)))"

text \<open>The first occurrence of a literal under the \<^verbatim>\<open>i\<close> flag.\<close>

definition indexOf_ci :: "string \<Rightarrow> string \<Rightarrow> nat option" where
  "indexOf_ci s p = indexOf (toLowerCase s) (toLowerCase p)"

definition starts_ci :: "string \<Rightarrow> string \<Rightarrow> bool" where
  "starts_ci s p = prefix (toLowerCase p) (toLowerCase s)"

text \<open>\<^verbatim>\<open>s.split(sep)\<close> for a separator of one character.\<close>

fun split_on :: "char \<Rightarrow> string \<Rightarrow> string list" where
  "split_on sep [] = [] # []"
| "split_on sep (c # cs) =
     (if c = sep then [] # split_on sep cs
      else (case split_on sep cs of
              [] \<Rightarrow> [c] # []
            | l # ls \<Rightarrow> (c # l) # ls))"

definition join_lines :: "string list \<Rightarrow> string" where
  "join_lines ls = concat (case ls of [] \<Rightarrow> [] | l # rest \<Rightarrow> l # map (\<lambda>x. CHR 0x0A # x) rest)"

subsection \<open>Live preview\<close>

text \<open>\<^verbatim>\<open>compileLivePreview(html, css)\<close> of the Gemini service, lines 853 to 891.\<close>

definition preview_document :: "string \<Rightarrow> string \<Rightarrow> string" where
  \<open>preview_document html css = join_lines
     [''<!DOCTYPE html>'',
      ''<html lang="en">'',
      ''<head>'',
      ''  <meta charset="UTF-8">'',
      ''  <meta name="viewport" content="width=device-width, initial-scale=1.0">'',
      ''  <title>DSY Core Preview</title>'',
      ''  <link href="https://fonts.googleapis.com/css2?family=Inter:wght@300;400;500;600;700&display=swap" rel="stylesheet">'',
      ''  <style>'',
      ''    * {'',
      ''      margin: 0;'',
      ''      padding: 0;'',
      ''      box-sizing: border-box;'',
      ''    }'',
      ''    body {'',
      ''      font-family: '' @ [CHR 0x27] @ ''Inter'' @ [CHR 0x27] @ '', sans-serif;'',
      ''    }'',
      ''    '' @ css,
      ''  </style>'',
      ''</head>'',
      ''<body>'',
      ''  '' @ html,
      ''</body>'',
      ''</html>'']\<close>

definition compileLivePreview :: "string \<Rightarrow> string \<Rightarrow> string" where
  "compileLivePreview html css =
     (if includes_str html ''<!DOCTYPE'' \<or> includes_str html ''<html'' then
        (if css \<noteq> [] then
           (if includes_str html ''</head>'' then
              replace html ''</head>'' (''<style>'' @ css @ ''</style></head>'')
            else if includes_str html ''<body'' then
              replace html ''<body'' (''<style>'' @ css @ ''</style><body'')
            else html)
         else html)
      else preview_document html css)"

subsection \<open>Output parser\<close>

text \<open>
  One match of \<^verbatim>\<open>codeBlockRegex\<close>. The fields \<^verbatim>\<open>startIndex\<close> and \<^verbatim>\<open>endIndex\<close> of the source
  are never read and are left out.
\<close>

record code_block =
  language :: string
  content :: string

definition fence :: string where
  "fence = [CHR 0x60, CHR 0x60, CHR 0x60]"

text \<open>
  The \<^verbatim>\<open>exec\<close> loop over \<^verbatim>\<open>/```(\w+)?\s*\n?([\s\S]*?)```/g\<close>, lines 739 to 750: the next
  opening fence, the longest run of word characters as the tag, the white space after
  it, and the body up to the next fence; the search goes on behind that closing fence.
  An opening fence with no fence after it ends the scan, since no later position can
  match either.
\<close>

function scanCodeBlocks :: "string \<Rightarrow> code_block list" where
  "scanCodeBlocks s =
     (case indexOf s fence of
        None \<Rightarrow> []
      | Some i \<Rightarrow>
          (let afterOpen = drop (i + 3) s;
               tag = takeWhile is_word afterOpen;
               body = dropWhile is_space (dropWhile is_word afterOpen)
           in case indexOf body fence of
                None \<Rightarrow> []
              | Some j \<Rightarrow>
                  \<lparr>language = toLowerCase tag, content = take j body\<rparr>
                    # scanCodeBlocks (drop (j + 3) body)))"
  by pat_completeness auto
termination
proof (relation "measure length")
  show "wf (measure length)" by simp
next
  fix s :: string and i afterOpen tag body j
  assume a: "indexOf s fence = Some i"
    and b: "afterOpen = drop (i + 3) s"
    and c: "body = dropWhile is_space (dropWhile is_word afterOpen)"
  have bound: "indexOf t p = Some k \<Longrightarrow> k + length p \<le> length t" for t p k
    by (induction t arbitrary: k) (auto split: if_splits dest: prefix_length_le)
  from bound [OF a] have "i + 3 \<le> length s" by (simp add: fence_def)
  moreover have "length body \<le> length afterOpen"
    unfolding c by (meson length_dropWhile_le order_trans)
  ultimately have "length (drop (j + 3) body) < length s"
    using b by simp
  then show "(drop (j + 3) body, s) \<in> measure length" by simp
qed

declare scanCodeBlocks.simps [simp del]

text \<open>The loop of lines 755 to 763 over the blocks; the state is \<open>(html, css)\<close>.\<close>

fun pickTagged :: "code_block list \<Rightarrow> string \<times> string \<Rightarrow> string \<times> string" where
  "pickTagged [] (html, css) = (html, css)"
| "pickTagged (block # blocks) (html, css) =
     (if language block = ''html'' \<and> html = [] then pickTagged blocks (trim (content block), css)
      else if language block = ''css'' \<and> css = [] then pickTagged blocks (html, trim (content block))
      else pickTagged blocks (html, css))"

text \<open>
  \<^verbatim>\<open>/[\.\#\w\-]+\s*\{/.test(s)\<close>: some opening brace is preceded, white space apart, by a
  character of the class. The flag says whether the text read so far ends in such a
  character followed by white space only.
\<close>

definition is_selector_char :: "char \<Rightarrow> bool" where
  "is_selector_char c = (c = CHR ''.'' \<or> c = CHR ''#'' \<or> is_word c \<or> c = CHR ''-'')"

fun has_selector :: "bool \<Rightarrow> string \<Rightarrow> bool" where
  "has_selector ready [] = False"
| "has_selector ready (c # cs) =
     (if c = CHR ''{'' then (ready \<or> has_selector False cs)
      else if is_selector_char c then has_selector True cs
      else if is_space c then has_selector ready cs
      else has_selector False cs)"

text \<open>The loop of lines 766 to 795 over the blocks without a language tag.\<close>

fun pickUntagged :: "code_block list \<Rightarrow> string \<times> string \<Rightarrow> string \<times> string" where
  "pickUntagged [] (html, css) = (html, css)"
| "pickUntagged (block # blocks) (html, css) =
     (if language block = [] then
        (let trimmedContent = trim (content block) in
         if html = [] \<and> (includes_str trimmedContent ''<!DOCTYPE'' \<or> includes_str trimmedContent ''<html''
              \<or> includes_str trimmedContent ''<head'' \<or> includes_str trimmedContent ''<body'')
         then pickUntagged blocks (trimmedContent, css)
         else if css = [] \<and> (includes_str trimmedContent ''{'' \<and> includes_str trimmedContent ''}''
              \<and> (includes_str trimmedContent '':'' \<or> includes_str trimmedContent '';''))
         then (if has_selector False trimmedContent then pickUntagged blocks (html, trimmedContent)
               else pickUntagged blocks (html, css))
         else pickUntagged blocks (html, css))
      else pickUntagged blocks (html, css))"

text \<open>
  The leftmost match of a regular expression: \<open>m\<close> matches at the very start of its
  argument and returns the matched text; the start positions are tried from the left.
\<close>

fun search_first :: "(string \<Rightarrow> 'a option) \<Rightarrow> string \<Rightarrow> 'a option" where
  "search_first m [] = m []"
| "search_first m (c # cs) = (case m (c # cs) of Some x \<Rightarrow> Some x | None \<Rightarrow> search_first m cs)"

text \<open>
  A tag opened by \<open>opener\<close> at the start of \<open>s\<close>, then \<^verbatim>\<open>[^>]*>\<close>, then the shortest text
  up to \<open>closer\<close>; the result is the length of the tag, the text between tag and closer,
  and the length of the whole match.
\<close>

definition match_element :: "string \<Rightarrow> string \<Rightarrow> string \<Rightarrow> (nat \<times> string \<times> nat) option" where
  "match_element opener closer s =
     (if starts_ci s opener then
        (let attrs = takeWhile (\<lambda>c. c \<noteq> CHR ''>'') (drop (length opener) s);
             tagLen = length opener + length attrs + 1
         in if length s < tagLen then None
            else (case indexOf_ci (drop tagLen s) closer of
                    None \<Rightarrow> None
                  | Some j \<Rightarrow> Some (tagLen, take j (drop tagLen s), tagLen + j + length closer)))
      else None)"

text \<open>\<^verbatim>\<open>/<!DOCTYPE\s+html[^>]*>[\s\S]*?<\/html>/i\<close> at the start of \<open>s\<close>.\<close>

definition match_doctype_document :: "string \<Rightarrow> string option" where
  "match_doctype_document s =
     (if starts_ci s ''<!DOCTYPE'' then
        (let spaces = takeWhile is_space (drop 9 s) in
         if spaces = [] then None
         else (case match_element ''html'' ''</html>'' (drop (9 + length spaces) s) of
                 None \<Rightarrow> None
               | Some (tagLen, inner, n) \<Rightarrow> Some (take (9 + length spaces + n) s)))
      else None)"

text \<open>\<^verbatim>\<open>/<html[^>]*>[\s\S]*?<\/html>/i\<close> at the start of \<open>s\<close>.\<close>

definition match_html_element :: "string \<Rightarrow> string option" where
  "match_html_element s =
     (case match_element ''<html'' ''</html>'' s of
        None \<Rightarrow> None
      | Some (tagLen, inner, n) \<Rightarrow> Some (take n s))"

text \<open>
  \<^verbatim>\<open>html.matchAll(/<style[^>]*>([\s\S]*?)<\/style>/gi)\<close>: the captured texts in document
  order. \<open>skip\<close> counts the characters of the last match still to be passed over.
\<close>

fun styleMatches :: "nat \<Rightarrow> string \<Rightarrow> string list" where
  "styleMatches skip [] = []"
| "styleMatches (Suc skip) (c # cs) = styleMatches skip cs"
| "styleMatches 0 (c # cs) =
     (case match_element ''<style'' ''</style>'' (c # cs) of
        Some (tagLen, inner, n) \<Rightarrow> inner # styleMatches (n - 1) cs
      | None \<Rightarrow> styleMatches 0 cs)"

definition join_blank :: "string list \<Rightarrow> string" where
  "join_blank parts =
     concat (case parts of [] \<Rightarrow> [] | p # rest \<Rightarrow> p # map (\<lambda>x. CHR 0x0A # CHR 0x0A # x) rest)"

text \<open>Fallback 1, lines 798 to 814.\<close>

definition fallbackHtml :: "string \<Rightarrow> string" where
  "fallbackHtml text =
     (case search_first match_doctype_document text of
        Some htmlDocMatch \<Rightarrow> trim htmlDocMatch
      | None \<Rightarrow>
          (case search_first match_html_element text of
             Some htmlTagMatch \<Rightarrow> trim htmlTagMatch
           | None \<Rightarrow> []))"

text \<open>Fallback 2, lines 817 to 829.\<close>

definition fallbackCss :: "string \<Rightarrow> string" where
  "fallbackCss html =
     (let extractedStyles = map trim (filter (\<lambda>inner. inner \<noteq> []) (styleMatches 0 html))
      in if length extractedStyles > 0 then join_blank extractedStyles else [])"

text \<open>\<^verbatim>\<open>parseGeneratedCode(content)\<close> of the Gemini service, lines 724 to 844.\<close>

definition parseGeneratedCode :: "string \<Rightarrow> string \<times> string" where
  "parseGeneratedCode text =
     (if text = [] then ([], [])
      else
        let codeBlocks = scanCodeBlocks text;
            (html1, css1) = pickTagged codeBlocks ([], []);
            (html2, css2) = (if html1 = [] \<or> css1 = [] then pickUntagged codeBlocks (html1, css1)
                             else (html1, css1));
            html3 = (if html2 = [] then fallbackHtml text else html2);
            css3 = (if css2 = [] \<and> html3 \<noteq> [] then fallbackCss html3 else css2)
        in (html3, css3))"





subsection \<open>JSON values\<close>

text \<open>
  The values \<^verbatim>\<open>JSON.parse\<close> returns. A number is a finite double, which is a real
  number; only whether it is zero matters to the code.
\<close>

datatype json =
    JNull
  | JBool bool
  | JNumber real
  | JString string
  | JArray "json list"
  | JObject "(string \<times> json) list"

text \<open>JavaScript truthiness of a JSON value, as \<^verbatim>\<open>!value\<close> tests it.\<close>

fun truthy :: "json \<Rightarrow> bool" where
  "truthy JNull = False"
| "truthy (JBool b) = b"
| "truthy (JNumber x) = (x \<noteq> 0)"
| "truthy (JString s) = (s \<noteq> [])"
| "truthy (JArray xs) = True"
| "truthy (JObject members) = True"

text \<open>
  \<^verbatim>\<open>value.name\<close> for a name that no prototype defines (\<^verbatim>\<open>layout\<close>, \<^verbatim>\<open>colors\<close>): the member
  of an object, \<^verbatim>\<open>undefined\<close> on every other value.
\<close>

fun getMember :: "json \<Rightarrow> string \<Rightarrow> json option" where
  "getMember (JObject members) name = map_of members name"
| "getMember v name = None"

definition truthyMember :: "json \<Rightarrow> string \<Rightarrow> bool" where
  "truthyMember v name = (case getMember v name of None \<Rightarrow> False | Some m \<Rightarrow> truthy m)"

subsection \<open>Prompt optimizer\<close>

fun lastIndexOf :: "string \<Rightarrow> string \<Rightarrow> nat option" where
  "lastIndexOf [] p = (if p = [] then Some 0 else None)"
| "lastIndexOf (c # cs) p =
     (case lastIndexOf cs p of
        Some j \<Rightarrow> Some (Suc j)
      | None \<Rightarrow> (if prefix p (c # cs) then Some 0 else None))"

text \<open>
  Replacing every match of a regular expression by the empty string: \<open>m\<close> gives the
  length of the match at the very start of its argument, \<open>skip\<close> counts the characters
  of the last match still to be dropped.
\<close>

fun remove_matches :: "(string \<Rightarrow> nat option) \<Rightarrow> nat \<Rightarrow> string \<Rightarrow> string" where
  "remove_matches m skip [] = []"
| "remove_matches m (Suc skip) (c # cs) = remove_matches m skip cs"
| "remove_matches m 0 (c # cs) =
     (case m (c # cs) of
        Some n \<Rightarrow> remove_matches m (n - 1) cs
      | None \<Rightarrow> c # remove_matches m 0 cs)"

text \<open>\<^verbatim>\<open>/---TEXT---\s*([\s\S]*?)(?:---JSON---|$)/i\<close>: the captured group of the first match.\<close>

definition match_text_section :: "string \<Rightarrow> string option" where
  "match_text_section rawOutput =
     (case indexOf_ci rawOutput ''---TEXT---'' of
        None \<Rightarrow> None
      | Some i \<Rightarrow>
          (let rest = dropWhile is_space (drop (i + 10) rawOutput)
           in case indexOf_ci rest ''---JSON---'' of
                None \<Rightarrow> Some rest
              | Some j \<Rightarrow> Some (take j rest)))"

text \<open>\<^verbatim>\<open>/---JSON---\s*([\s\S]*?)$/i\<close>: the captured group of the first match.\<close>

definition match_json_section :: "string \<Rightarrow> string option" where
  "match_json_section rawOutput =
     (case indexOf_ci rawOutput ''---JSON---'' of
        None \<Rightarrow> None
      | Some i \<Rightarrow> Some (dropWhile is_space (drop (i + 10) rawOutput)))"

text \<open>\<^verbatim>\<open>/```json?\s*/gi\<close> at the start of \<open>s\<close>: the length of the match.\<close>

definition match_json_fence :: "string \<Rightarrow> nat option" where
  "match_json_fence s =
     (if starts_ci s (fence @ ''jso'') then
        (let n = (if starts_ci (drop 6 s) ''n'' then 7 else 6)
         in Some (n + length (takeWhile is_space (drop n s))))
      else None)"

text \<open>\<^verbatim>\<open>.replace(/```\s*$/g, '')\<close>: a fence with only white space up to the end is cut off.\<close>

fun strip_closing_fence :: "string \<Rightarrow> string" where
  "strip_closing_fence [] = []"
| "strip_closing_fence (c # cs) =
     (if prefix fence (c # cs) \<and> list_all is_space (drop 3 (c # cs)) then []
      else c # strip_closing_fence cs)"

text \<open>
  \<^verbatim>\<open>/\{[\s\S]*"layout"[\s\S]*\}/\<close>: from the first opening brace to the last closing
  brace, when the quoted word lies in between.
\<close>

definition match_layout_object :: "string \<Rightarrow> string option" where
  "match_layout_object rawOutput =
     (case indexOf rawOutput ''{'' of
        None \<Rightarrow> None
      | Some i \<Rightarrow>
          (let inner = drop (i + 1) rawOutput
           in case lastIndexOf inner ''}'' of
                None \<Rightarrow> None
              | Some j \<Rightarrow>
                  (if includes_str (take j inner) ([CHR 0x22] @ ''layout'' @ [CHR 0x22])
                   then Some (take (j + 2) (drop i rawOutput))
                   else None)))"

text \<open>
  \<^verbatim>\<open>parseOptimizationOutput(rawOutput)\<close>, lines 427 to 460. \<^verbatim>\<open>JSON.parse\<close> is the first
  argument; \<open>None\<close> is its \<^verbatim>\<open>SyntaxError\<close>. The result is \<open>(displayText, designJSON)\<close>,
  with \<open>JNull\<close> for \<^verbatim>\<open>null\<close>.
\<close>

definition parseOptimizationOutput :: "(string \<Rightarrow> json option) \<Rightarrow> string \<Rightarrow> string \<times> json" where
  "parseOptimizationOutput JSON_parse rawOutput =
     (let displayText =
            (case match_text_section rawOutput of
               Some textMatch1 \<Rightarrow> (if textMatch1 \<noteq> [] then trim textMatch1 else rawOutput)
             | None \<Rightarrow> rawOutput);
          designJSON =
            (case match_json_section rawOutput of
               None \<Rightarrow> JNull
             | Some jsonMatch1 \<Rightarrow>
                 (if jsonMatch1 = [] then JNull
                  else
                    (let jsonStr = trim (strip_closing_fence
                           (remove_matches match_json_fence 0 (trim jsonMatch1)))
                     in case JSON_parse jsonStr of
                          Some v \<Rightarrow> v
                        | None \<Rightarrow>
                            (case match_layout_object rawOutput of
                               None \<Rightarrow> JNull
                             | Some jsonBlockMatch \<Rightarrow>
                                 (case JSON_parse jsonBlockMatch of
                                    Some v \<Rightarrow> v
                                  | None \<Rightarrow> JNull)))))
      in (displayText, designJSON))"

text \<open>
  What one \<^verbatim>\<open>fetch\<close> of the Gemini endpoint and the reading of its body come to:
  the promise rejects (network failure, or a body that is not JSON), the status is 429,
  the status is another failure (the argument is the message of the \<^verbatim>\<open>Error\<close> the code
  throws), or the call succeeds with the text of the first candidate (\<^verbatim>\<open>''\<close> when the
  body has none).
\<close>

datatype gemini_response =
    Rejected string
  | Status429
  | NotOk string
  | Ok200 string

subsection \<open>Results, assets and the environment\<close>

text \<open>An asset of the caller: \<^verbatim>\<open>{ type, data, name }\<close>; an absent \<^verbatim>\<open>data\<close> is the empty string.\<close>

record asset =
  type :: string
  data :: string
  name :: string

text \<open>A generated file of the React mode: \<^verbatim>\<open>{ name, content, language }\<close>.\<close>

datatype react_file = File (file_name: string) (file_content: string) (file_language: string)

text \<open>
  The object \<^verbatim>\<open>optimizePrompt\<close> returns. The fields \<^verbatim>\<open>success\<close> and \<^verbatim>\<open>error\<close> carry the
  prefix \<open>opt\<close> here, since the generation result below has fields of the same names.
\<close>

record optimize_result =
  opt_success :: bool
  opt_error :: "string option"
  optimizedPrompt :: string
  designJSON :: json
  originalPrompt :: string
  imagesAnalyzed :: "nat option"
  rawOutput :: string

text \<open>
  The object the generation functions and the router return; a field the source does
  not set is \<open>None\<close>. The provider's own \<^verbatim>\<open>usage\<close> record is not modelled.
\<close>

record gen_result =
  success :: bool
  error :: "string option"
  html :: "string option"
  css :: "string option"
  files :: "react_file list option"
  rawContent :: "string option"
  usedImages :: "nat option"
  usedJSON :: "bool option"
  model :: "string option"
  pipeline :: "string option"
  framework :: "string option"
  usedHF :: "bool option"
  geminiCalls :: "nat option"
  fallback :: "bool option"

text \<open>
  What a call of the SambaNova endpoint inside a \<^verbatim>\<open>try\<close> block comes to: an exception
  with its message (network failure, a status that is not 2xx, a body without
  \<^verbatim>\<open>choices\<close>), or the content of the first choice (\<^verbatim>\<open>''\<close> when it has none).
\<close>

datatype sambanova_response =
    Threw string
  | Content string

text \<open>
  A string argument that may be missing: \<^verbatim>\<open>undefined\<close> (also an argument or member that is
  absent), \<^verbatim>\<open>null\<close>, or a string. A default parameter value replaces \<^verbatim>\<open>undefined\<close> only.
\<close>

datatype optional_string =
    Undefined
  | Null
  | Str string

text \<open>What is asked of the SambaNova provider: the function asking and its arguments.\<close>

datatype sambanova_request =
    WebPageRequest string
  | ExplanationRequest string "string option"
  | CodeRequest string string
  | SyllabusRequest string
  | BoxModelRequest string "string option"

text \<open>
  Everything outside the functions modelled here.
  \<^item> \<open>VITE_GEMINI_API_KEYS\<close>, \<open>SAMBANOVA_API_KEY\<close>: the configuration, the empty string when
    a variable is not set.
  \<^item> \<open>draw n\<close>: the value of \<^verbatim>\<open>Math.random\<close> at the key selection of attempt \<open>n\<close> of a call
    (\<open>0\<close> for the selection before the loop).
  \<^item> \<open>gemini n k\<close>: what the provider answers to attempt \<open>n\<close> of a call made with key \<open>k\<close>.
    The request body is the same in every attempt of one call.
  \<^item> \<open>JSON_parse\<close>: \<^verbatim>\<open>JSON.parse\<close>, \<open>None\<close> for a \<^verbatim>\<open>SyntaxError\<close>.
  \<^item> \<open>sambaNova q\<close>: what the SambaNova provider answers to the request \<open>q\<close>.
  \<^item> \<open>preprocess d\<close>: the outcome of \<^verbatim>\<open>buildDesignJSON(await preprocessImage(d))\<close> inside the
    router's \<^verbatim>\<open>try\<close> block, \<open>None\<close> when it throws or yields \<^verbatim>\<open>null\<close>.
  \<^item> \<open>parseReactOutput\<close>, \<open>generateReactApp\<close>: imported by the router from the SambaNova
    service; their code is not part of the sources at hand. Either may throw: \<open>Inl\<close> is
    the exception, \<open>Inr\<close> the value returned.
\<close>

record env =
  VITE_GEMINI_API_KEYS :: string
  SAMBANOVA_API_KEY :: string
  draw :: "nat \<Rightarrow> nat"
  gemini :: "nat \<Rightarrow> key \<Rightarrow> gemini_response"
  JSON_parse :: "string \<Rightarrow> json option"
  sambaNova :: "sambanova_request \<Rightarrow> sambanova_response"
  preprocess :: "string \<Rightarrow> json option"
  parseReactOutput :: "string \<Rightarrow> string + react_file list"
  generateReactApp :: "string \<Rightarrow> string + gen_result"

text \<open>
  \<^verbatim>\<open>GEMINI_API_KEYS\<close>, lines 15 and 16: the configured text split at the commas, each part
  trimmed, the empty parts dropped. No key of the list is the empty string, and
  \<^verbatim>\<open>getRandomKey\<close> returns \<^verbatim>\<open>null\<close> or a key of the list, so that the tests \<^verbatim>\<open>!apiKey\<close> and
  \<^verbatim>\<open>!currentKey\<close> of the source hold for \<^verbatim>\<open>null\<close> only.
\<close>

definition GEMINI_API_KEYS :: "env \<Rightarrow> key list" where
  "GEMINI_API_KEYS e =
     filter (\<lambda>k. length k > 0) (map trim (split_on (CHR '','') (VITE_GEMINI_API_KEYS e)))"

subsection \<open>The optimizer's retry loop\<close>

definition maxJsonRetries :: nat where
  "maxJsonRetries = 3"

definition noGeminiKeys :: string where
  "noGeminiKeys = ''No Gemini API keys configured. Please set VITE_GEMINI_API_KEYS in your .env file.''"

text \<open>The object returned behind the loop, lines 412 to 419.\<close>

definition optimizeExhausted :: "string \<Rightarrow> string \<Rightarrow> string \<Rightarrow> optimize_result" where
  "optimizeExhausted userPrompt lastDisplayText lastRawOutput =
     \<lparr>opt_success = False,
      opt_error = Some ''Failed to extract design JSON after multiple attempts. Please try again.'',
      optimizedPrompt = lastDisplayText,
      designJSON = JNull,
      originalPrompt = userPrompt,
      imagesAnalyzed = None,
      rawOutput = lastRawOutput\<rparr>"

text \<open>
  The loop of lines 338 to 408, from iteration \<open>jsonAttempt\<close> on. The state is the failed
  set, \<^verbatim>\<open>lastDisplayText\<close>, \<^verbatim>\<open>lastRawOutput\<close> and the list of the provider's answers
  received so far, one per \<^verbatim>\<open>fetch\<close>, in order. The result is the returned object, the
  failed set and that list. \<^verbatim>\<open>lastError\<close> is only logged and is left out.
\<close>

function optimize_attempts ::
  "env \<Rightarrow> string \<Rightarrow> nat \<Rightarrow> key \<Rightarrow> nat \<Rightarrow> key set \<Rightarrow> string \<Rightarrow> string \<Rightarrow> gemini_response list
    \<Rightarrow> optimize_result \<times> key set \<times> gemini_response list" where
  "optimize_attempts e userPrompt imageCount apiKey jsonAttempt failed lastDisplayText lastRawOutput calls =
     (if jsonAttempt < maxJsonRetries then
        (case (if jsonAttempt = 0 then (Some apiKey, failed)
               else getRandomKey (GEMINI_API_KEYS e) failed (Some apiKey) (draw e jsonAttempt)) of
           (None, failed1) \<Rightarrow>
             (optimizeExhausted userPrompt lastDisplayText lastRawOutput, failed1, calls)
         | (Some currentKey, failed1) \<Rightarrow>
             (case gemini e jsonAttempt currentKey of
                Rejected msg \<Rightarrow>
                  optimize_attempts e userPrompt imageCount apiKey (Suc jsonAttempt) failed1
                    lastDisplayText lastRawOutput (calls @ [Rejected msg])
              | Status429 \<Rightarrow>
                  optimize_attempts e userPrompt imageCount apiKey (Suc jsonAttempt)
                    (markKeyFailed currentKey failed1) lastDisplayText lastRawOutput (calls @ [Status429])
              | NotOk msg \<Rightarrow>
                  optimize_attempts e userPrompt imageCount apiKey (Suc jsonAttempt) failed1
                    lastDisplayText lastRawOutput (calls @ [NotOk msg])
              | Ok200 raw \<Rightarrow>
                  (case parseOptimizationOutput (JSON_parse e) raw of
                     (displayText, parsedDesign) \<Rightarrow>
                       if \<not> truthy parsedDesign then
                         optimize_attempts e userPrompt imageCount apiKey (Suc jsonAttempt) failed1
                           displayText raw (calls @ [Ok200 raw])
                       else if \<not> truthyMember parsedDesign ''layout'' \<or> \<not> truthyMember parsedDesign ''colors'' then
                         optimize_attempts e userPrompt imageCount apiKey (Suc jsonAttempt) failed1
                           displayText raw (calls @ [Ok200 raw])
                       else
                         (\<lparr>opt_success = True,
                           opt_error = None,
                           optimizedPrompt = displayText,
                           designJSON = parsedDesign,
                           originalPrompt = userPrompt,
                           imagesAnalyzed = Some imageCount,
                           rawOutput = raw\<rparr>, failed1, calls @ [Ok200 raw]))))
      else (optimizeExhausted userPrompt lastDisplayText lastRawOutput, failed, calls))"
  by pat_completeness auto
termination
  by (relation "measure (\<lambda>(e, userPrompt, imageCount, apiKey, jsonAttempt, rest). maxJsonRetries - jsonAttempt)") auto

declare optimize_attempts.simps [simp del]

text \<open>
  \<^verbatim>\<open>optimizePrompt(userPrompt, assets)\<close>, lines 279 to 420. \<open>Inl\<close> is the \<^verbatim>\<open>Error\<close> thrown at
  line 283. The request parts built in lines 286 to 330 go to the provider only; of them
  the result keeps the number of image assets.
\<close>

definition optimizePrompt ::
  "env \<Rightarrow> string \<Rightarrow> asset list \<Rightarrow> key set \<Rightarrow> (string + optimize_result) \<times> key set \<times> gemini_response list" where
  "optimizePrompt e userPrompt assets failed =
     (case getRandomKey (GEMINI_API_KEYS e) failed None (draw e 0) of
        (None, failed1) \<Rightarrow> (Inl noGeminiKeys, failed1, [])
      | (Some apiKey, failed1) \<Rightarrow>
          (let imageAssets = filter (\<lambda>a. type a = ''image'') assets
           in case optimize_attempts e userPrompt (length imageAssets) apiKey 0 failed1 [] [] [] of
                (result, failed2, calls) \<Rightarrow> (Inr result, failed2, calls)))"

text \<open>
  Notions used to state the properties of the retry loop: a provider answer yields a
  valid design when it is a success whose parsed JSON is truthy and has truthy members
  \<^verbatim>\<open>layout\<close> and \<^verbatim>\<open>colors\<close>; \<open>lastOk\<close> is the text of the last successful answer of a list.
\<close>

definition yieldsValidDesign :: "env \<Rightarrow> gemini_response \<Rightarrow> bool" where
  "yieldsValidDesign e x =
     (case x of
        Ok200 raw \<Rightarrow>
          (case parseOptimizationOutput (JSON_parse e) raw of
             (displayText, parsedDesign) \<Rightarrow>
               truthy parsedDesign \<and> truthyMember parsedDesign ''layout''
                 \<and> truthyMember parsedDesign ''colors'')
      | _ \<Rightarrow> False)"

fun lastOk :: "gemini_response list \<Rightarrow> string option" where
  "lastOk [] = None"
| "lastOk (x # xs) =
     (case lastOk xs of
        Some t \<Rightarrow> Some t
      | None \<Rightarrow> (case x of Ok200 t \<Rightarrow> Some t | _ \<Rightarrow> None))"

definition shownText :: "env \<Rightarrow> gemini_response list \<Rightarrow> string" where
  "shownText e calls =
     (case lastOk calls of
        None \<Rightarrow> []
      | Some t \<Rightarrow> fst (parseOptimizationOutput (JSON_parse e) t))"

definition shownRaw :: "gemini_response list \<Rightarrow> string" where
  "shownRaw calls = (case lastOk calls of None \<Rightarrow> [] | Some t \<Rightarrow> t)"

definition optimize_post :: "env \<Rightarrow> optimize_result \<Rightarrow> gemini_response list \<Rightarrow> bool" where
  "optimize_post e r calls =
     (length calls \<le> 3
      \<and> (\<forall>x \<in> set (butlast calls). \<not> yieldsValidDesign e x)
      \<and> (opt_success r \<longrightarrow>
            calls \<noteq> [] \<and> yieldsValidDesign e (last calls)
            \<and> (\<exists>raw. last calls = Ok200 raw \<and> rawOutput r = raw
                  \<and> designJSON r = snd (parseOptimizationOutput (JSON_parse e) raw)
                  \<and> optimizedPrompt r = fst (parseOptimizationOutput (JSON_parse e) raw)))
      \<and> (\<not> opt_success r \<longrightarrow>
            (\<forall>x \<in> set calls. \<not> yieldsValidDesign e x)
            \<and> opt_error r \<noteq> None
            \<and> designJSON r = JNull
            \<and> optimizedPrompt r = shownText e calls
            \<and> rawOutput r = shownRaw calls
            \<and> (GEMINI_API_KEYS e \<noteq> [] \<longrightarrow> length calls = 3)))"

subsection \<open>Page generation with the Gemini provider\<close>

definition emptyResult :: gen_result where
  "emptyResult =
     \<lparr>success = False, error = None, html = None, css = None, files = None,
      rawContent = None, usedImages = None, usedJSON = None, model = None, pipeline = None,
      framework = None, usedHF = None, geminiCalls = None, fallback = None\<rparr>"

text \<open>\<^verbatim>\<open>!!designJSON\<close> for a design that is \<^verbatim>\<open>null\<close> (\<open>None\<close>) or a JSON value.\<close>

definition hasDesign :: "json option \<Rightarrow> bool" where
  "hasDesign design = (case design of None \<Rightarrow> False | Some j \<Rightarrow> truthy j)"

text \<open>
  The object returned behind the loop, lines 603 to 609; the argument is the message of
  \<^verbatim>\<open>lastError\<close>, \<open>None\<close> when no attempt threw.
\<close>

definition generationFailed :: "string option \<Rightarrow> gen_result" where
  "generationFailed lastError =
     emptyResult
       \<lparr>success := False,
        error := Some (case lastError of
                         None \<Rightarrow> ''All API keys exhausted''
                       | Some msg \<Rightarrow> (if msg = [] then ''All API keys exhausted'' else msg)),
        html := Some [],
        css := Some [],
        rawContent := Some []\<rparr>"

text \<open>
  The loop of lines 533 to 600, from iteration \<open>attempt\<close> on, with the failed set, the
  message of \<^verbatim>\<open>lastError\<close> and the list of the provider's answers received so far.
\<close>

function generate_attempts ::
  "env \<Rightarrow> nat \<Rightarrow> bool \<Rightarrow> key \<Rightarrow> nat \<Rightarrow> key set \<Rightarrow> string option \<Rightarrow> gemini_response list
    \<Rightarrow> gen_result \<times> key set \<times> gemini_response list" where
  "generate_attempts e imageCount withJSON apiKey attempt failed lastError calls =
     (if attempt < min 3 (length (GEMINI_API_KEYS e)) then
        (case (if attempt = 0 then (Some apiKey, failed)
               else getRandomKey (GEMINI_API_KEYS e) failed (Some apiKey) (draw e attempt)) of
           (None, failed1) \<Rightarrow> (generationFailed lastError, failed1, calls)
         | (Some currentKey, failed1) \<Rightarrow>
             (case gemini e attempt currentKey of
                Rejected msg \<Rightarrow>
                  generate_attempts e imageCount withJSON apiKey (Suc attempt) failed1
                    (Some msg) (calls @ [Rejected msg])
              | Status429 \<Rightarrow>
                  generate_attempts e imageCount withJSON apiKey (Suc attempt)
                    (markKeyFailed currentKey failed1) lastError (calls @ [Status429])
              | NotOk msg \<Rightarrow>
                  generate_attempts e imageCount withJSON apiKey (Suc attempt) failed1
                    (Some msg) (calls @ [NotOk msg])
              | Ok200 text \<Rightarrow>
                  (case parseGeneratedCode text of
                     (parsedHtml, parsedCss) \<Rightarrow>
                       if parsedHtml = [] \<or> length parsedHtml < 100 then
                         generate_attempts e imageCount withJSON apiKey (Suc attempt) failed1
                           lastError (calls @ [Ok200 text])
                       else if parsedCss = [] \<or> length parsedCss < 50 then
                         generate_attempts e imageCount withJSON apiKey (Suc attempt) failed1
                           lastError (calls @ [Ok200 text])
                       else
                         (emptyResult
                            \<lparr>success := True,
                             html := Some parsedHtml,
                             css := Some parsedCss,
                             rawContent := Some text,
                             usedImages := Some imageCount,
                             usedJSON := Some withJSON\<rparr>,
                          failed1, calls @ [Ok200 text]))))
      else (generationFailed lastError, failed, calls))"
  by pat_completeness auto
termination
  by (relation "measure (\<lambda>(e, imageCount, withJSON, apiKey, attempt, rest). 3 - attempt)") auto

declare generate_attempts.simps [simp del]

text \<open>
  \<^verbatim>\<open>generateWebPageWithImages(prompt, assets, designJSON, excludeKey)\<close>, lines 471 to 610.
  \<open>Inl\<close> is the \<^verbatim>\<open>Error\<close> thrown at line 475. The prompt and the design go to the provider
  only.
\<close>

definition generateWebPageWithImages ::
  "env \<Rightarrow> string \<Rightarrow> asset list \<Rightarrow> json option \<Rightarrow> key option \<Rightarrow> key set
    \<Rightarrow> (string + gen_result) \<times> key set \<times> gemini_response list" where
  "generateWebPageWithImages e prompt assets design excludeKey failed =
     (case getRandomKey (GEMINI_API_KEYS e) failed excludeKey (draw e 0) of
        (None, failed1) \<Rightarrow> (Inl noGeminiKeys, failed1, [])
      | (Some apiKey, failed1) \<Rightarrow>
          (let imageAssets = filter (\<lambda>a. type a = ''image'') assets
           in case generate_attempts e (length imageAssets) (hasDesign design) apiKey 0 failed1 None [] of
                (result, failed2, calls) \<Rightarrow> (Inr result, failed2, calls)))"

subsection \<open>The SambaNova service\<close>

text \<open>
  \<^verbatim>\<open>callSambaNova\<close> followed by the reading of the first choice, as it runs inside the
  \<^verbatim>\<open>try\<close> block of each caller: without an API key it throws before any request.
\<close>

definition callSambaNova :: "env \<Rightarrow> sambanova_request \<Rightarrow> sambanova_response" where
  "callSambaNova e request =
     (if SAMBANOVA_API_KEY e = [] then
        Threw ''SambaNova API key not configured. Please set VITE_SAMBANOVA_API_KEY in your environment.''
      else sambaNova e request)"

text \<open>\<^verbatim>\<open>/```html\s*([\s\S]*?)```/i\<close> and its \<^verbatim>\<open>css\<close> twin: the captured group of the first match.\<close>

definition match_tagged_fence :: "string \<Rightarrow> string \<Rightarrow> string option" where
  "match_tagged_fence tag text =
     (case indexOf_ci text (fence @ tag) of
        None \<Rightarrow> None
      | Some i \<Rightarrow>
          (let body = dropWhile is_space (drop (i + 3 + length tag) text)
           in case indexOf body fence of
                None \<Rightarrow> None
              | Some j \<Rightarrow> Some (take j body)))"

text \<open>\<^verbatim>\<open>/<(!DOCTYPE|html|head|body)[\s\S]*<\/html>/i\<close> at the start of \<open>s\<close>.\<close>

definition match_inline_document :: "string \<Rightarrow> string option" where
  "match_inline_document s =
     (let n = (if starts_ci s ''<!DOCTYPE'' then Some 9
               else if starts_ci s ''<html'' \<or> starts_ci s ''<head'' \<or> starts_ci s ''<body'' then Some 5
               else None)
      in case n of
           None \<Rightarrow> None
         | Some k \<Rightarrow>
             (case lastIndexOf (toLowerCase (drop k s)) ''</html>'' of
                None \<Rightarrow> None
              | Some j \<Rightarrow> Some (take (k + j + 7) s)))"

text \<open>\<^verbatim>\<open>parseGeneratedCode(content)\<close> of the SambaNova service.\<close>

definition sambaNova_parseGeneratedCode :: "string \<Rightarrow> string \<times> string" where
  "sambaNova_parseGeneratedCode text =
     (let html1 = (case match_tagged_fence ''html'' text of Some body \<Rightarrow> trim body | None \<Rightarrow> []);
          css1 = (case match_tagged_fence ''css'' text of Some body \<Rightarrow> trim body | None \<Rightarrow> [])
      in if html1 = [] \<and> css1 = [] then
           (case search_first match_inline_document text of
              Some htmlInlineMatch \<Rightarrow> (htmlInlineMatch, css1)
            | None \<Rightarrow> (html1, css1))
         else (html1, css1))"

text \<open>\<^verbatim>\<open>generateWebPage(prompt)\<close> of the SambaNova service.\<close>

definition generateWebPage :: "env \<Rightarrow> string \<Rightarrow> gen_result" where
  "generateWebPage e prompt =
     (case callSambaNova e (WebPageRequest prompt) of
        Content text \<Rightarrow>
          (case sambaNova_parseGeneratedCode text of
             (parsedHtml, parsedCss) \<Rightarrow>
               emptyResult
                 \<lparr>success := True,
                  html := Some parsedHtml,
                  css := Some parsedCss,
                  rawContent := Some text,
                  model := Some ''Qwen3-32B''\<rparr>)
      | Threw msg \<Rightarrow>
          emptyResult
            \<lparr>success := False,
             error := Some msg,
             html := Some [],
             css := Some [],
             rawContent := Some []\<rparr>)"

text \<open>
  The object the chat functions of the SambaNova service return; the fields carry the
  prefix \<open>chat\<close>.
\<close>

record chat_result =
  chat_success :: bool
  chat_error :: "string option"
  chat_content :: string
  chat_model :: "string option"

text \<open>
  The body shared by \<^verbatim>\<open>generateExplanation\<close>, \<^verbatim>\<open>generateCode\<close>, \<^verbatim>\<open>analyzeSyllabus\<close> and
  \<^verbatim>\<open>analyzeBoxModel\<close>: the call inside \<^verbatim>\<open>try\<close>, the failure object in \<^verbatim>\<open>catch\<close>.
\<close>

definition askSambaNova :: "env \<Rightarrow> string \<Rightarrow> sambanova_request \<Rightarrow> chat_result" where
  "askSambaNova e modelName request =
     (case callSambaNova e request of
        Content text \<Rightarrow>
          \<lparr>chat_success = True, chat_error = None, chat_content = text, chat_model = Some modelName\<rparr>
      | Threw msg \<Rightarrow>
          \<lparr>chat_success = False, chat_error = Some msg, chat_content = [], chat_model = None\<rparr>)"

definition generateExplanation :: "env \<Rightarrow> string \<Rightarrow> string option \<Rightarrow> chat_result" where
  "generateExplanation e userPrompt context =
     askSambaNova e ''Meta-Llama-3.3-70B-Instruct'' (ExplanationRequest userPrompt context)"

text \<open>
  \<^verbatim>\<open>generateCode(codePrompt, language = 'javascript')\<close> of the SambaNova service: the
  language goes into the request text through a template literal, \<^verbatim>\<open>null\<close> as \<^verbatim>\<open>null\<close>.
\<close>

definition sambaNova_generateCode :: "env \<Rightarrow> string \<Rightarrow> optional_string \<Rightarrow> chat_result" where
  "sambaNova_generateCode e codePrompt lang =
     askSambaNova e ''Qwen3-32B''
       (CodeRequest codePrompt
          (case lang of Undefined \<Rightarrow> ''javascript'' | Null \<Rightarrow> ''null'' | Str l \<Rightarrow> l))"

definition analyzeSyllabus :: "env \<Rightarrow> string \<Rightarrow> chat_result" where
  "analyzeSyllabus e syllabusText =
     askSambaNova e ''Meta-Llama-3.3-70B-Instruct'' (SyllabusRequest syllabusText)"

definition analyzeBoxModel :: "env \<Rightarrow> string \<Rightarrow> string option \<Rightarrow> chat_result" where
  "analyzeBoxModel e cssCode imageDescription =
     askSambaNova e ''Meta-Llama-3.3-70B-Instruct'' (BoxModelRequest cssCode imageDescription)"

text \<open>
  The \<^verbatim>\<open>context\<close> object of \<^verbatim>\<open>chat\<close>. For the other three members \<open>None\<close> is a member that
  is absent or \<^verbatim>\<open>null\<close>: the functions that receive them test them for truthiness only.
\<close>

record chat_context =
  ctx_language :: optional_string
  ctx_cssCode :: "string option"
  ctx_imageDescription :: "string option"
  ctx_additionalContext :: "string option"

text \<open>
  \<^verbatim>\<open>chat(message, taskType, context)\<close>. The result is a sum to say that no exception
  leaves the function: each branch calls a function that catches its own.
\<close>

definition chat :: "env \<Rightarrow> string \<Rightarrow> string \<Rightarrow> chat_context \<Rightarrow> string + chat_result" where
  "chat e message taskType context =
     (if taskType = ''code'' then Inr (sambaNova_generateCode e message (ctx_language context))
      else if taskType = ''syllabus'' then Inr (analyzeSyllabus e message)
      else if taskType = ''boxmodel'' then
        Inr (analyzeBoxModel e
               (case ctx_cssCode context of
                  None \<Rightarrow> message
                | Some c \<Rightarrow> (if c = [] then message else c))
               (ctx_imageDescription context))
      else Inr (generateExplanation e message (ctx_additionalContext context)))"

subsection \<open>The code generator router\<close>

text \<open>
  The collaborators the router calls, recorded in the order of the calls: the image
  pre-processor, the Gemini pipeline (\<^verbatim>\<open>generateWebPageWithImages\<close>) and the SambaNova
  pipeline (\<^verbatim>\<open>generateWebPage\<close> or \<^verbatim>\<open>generateReactApp\<close>).
\<close>

datatype pipeline_call = Preprocessor | GeminiPipeline | SambaNovaPipeline

type_synonym routed = "(string + gen_result) \<times> key set \<times> pipeline_call list"

text \<open>\<^verbatim>\<open>generateTextOnly(prompt, framework)\<close>, lines 1000 to 1018.\<close>

definition generateTextOnly :: "env \<Rightarrow> string \<Rightarrow> string \<Rightarrow> key set \<Rightarrow> routed" where
  "generateTextOnly e prompt fw failed =
     (if fw = ''react'' then
        (case generateReactApp e prompt of
           Inl exn \<Rightarrow> (Inl exn, failed, [SambaNovaPipeline])
         | Inr result \<Rightarrow>
             (Inr (result\<lparr>pipeline := Some ''sambanova'', framework := Some ''react''\<rparr>),
              failed, [SambaNovaPipeline]))
      else
        (Inr ((generateWebPage e prompt)\<lparr>pipeline := Some ''sambanova'', framework := Some ''html''\<rparr>),
         failed, [SambaNovaPipeline]))"

text \<open>
  \<^verbatim>\<open>/<!DOCTYPE.*?>|<html.*?>|<\/html>|<head>[\s\S]*?<\/head>|<body.*?>|<\/body>/gi\<close> at the
  start of \<open>s\<close>: the length of the match. A dot matches no line terminator.
\<close>

definition is_line_terminator :: "char \<Rightarrow> bool" where
  "is_line_terminator c = (c = CHR 0x0A \<or> c = CHR 0x0D)"

definition match_open_tag :: "string \<Rightarrow> string \<Rightarrow> nat option" where
  "match_open_tag opener s =
     (if starts_ci s opener then
        (let inside = takeWhile (\<lambda>c. c \<noteq> CHR ''>'' \<and> \<not> is_line_terminator c) (drop (length opener) s);
             n = length opener + length inside
         in if n < length s \<and> s ! n = CHR ''>'' then Some (n + 1) else None)
      else None)"

definition match_document_tag :: "string \<Rightarrow> nat option" where
  "match_document_tag s =
     (case match_open_tag ''<!DOCTYPE'' s of
        Some n \<Rightarrow> Some n
      | None \<Rightarrow>
     (case match_open_tag ''<html'' s of
        Some n \<Rightarrow> Some n
      | None \<Rightarrow>
     (if starts_ci s ''</html>'' then Some 7
      else
     (case (if starts_ci s ''<head>'' then indexOf_ci (drop 6 s) ''</head>'' else None) of
        Some j \<Rightarrow> Some (6 + j + 7)
      | None \<Rightarrow>
     (case match_open_tag ''<body'' s of
        Some n \<Rightarrow> Some n
      | None \<Rightarrow>
     (if starts_ci s ''</body>'' then Some 7 else None))))))"

text \<open>The content of \<^verbatim>\<open>App.tsx\<close> in the fallback of lines 1151 to 1170.\<close>

definition appWrapper :: "string \<Rightarrow> string" where
  "appWrapper parsedHtml = join_lines
     [''import React from '' @ [CHR 0x27] @ ''react'' @ [CHR 0x27] @ '';'',
      ''import '' @ [CHR 0x27] @ ''./index.css'' @ [CHR 0x27] @ '';'',
      [],
      ''const App: React.FC = () => {'',
      ''  return ('',
      ''    <>'',
      join_lines (map (\<lambda>line. ''      '' @ line)
        (split_on (CHR 0x0A) (remove_matches match_document_tag 0 parsedHtml))),
      ''    </>'',
      ''  );'',
      ''};'',
      [],
      ''export default App;'']"

definition fallbackFiles :: "string \<Rightarrow> string \<Rightarrow> react_file list" where
  "fallbackFiles parsedHtml parsedCss =
     [File ''App.tsx'' (appWrapper parsedHtml) ''typescript'',
      File ''index.css'' (if parsedCss \<noteq> [] then parsedCss else ''/* Add your styles here */'') ''css'']"

text \<open>
  \<^verbatim>\<open>generateReactWithGemini(prompt, assets, designJSON)\<close>, lines 1071 to 1197. The prompt
  built in lines 1075 to 1112 goes to the provider only. The call of \<^verbatim>\<open>parseReactOutput\<close>
  in line 1129 stands in no \<^verbatim>\<open>try\<close> block: what it throws leaves the function.
\<close>

definition generateReactWithGemini ::
  "env \<Rightarrow> string \<Rightarrow> asset list \<Rightarrow> json option \<Rightarrow> key set \<Rightarrow> (string + gen_result) \<times> key set" where
  "generateReactWithGemini e prompt assets design failed =
     (case generateWebPageWithImages e prompt assets design None failed of
        (Inl exn, failed1, calls) \<Rightarrow> (Inl exn, failed1)
      | (Inr result, failed1, calls) \<Rightarrow>
          (if \<not> success result then
             (Inr (emptyResult
                     \<lparr>success := False,
                      error := error result,
                      files := Some [],
                      pipeline := Some ''gemini'',
                      framework := Some ''react''\<rparr>), failed1)
           else
             (let raw = (case rawContent result of None \<Rightarrow> [] | Some text \<Rightarrow> text)
              in case parseReactOutput e raw of
                   Inl exn \<Rightarrow> (Inl exn, failed1)
                 | Inr parsedFiles \<Rightarrow>
                 if length parsedFiles > 0 then
                   (Inr (emptyResult
                           \<lparr>success := True,
                            files := Some parsedFiles,
                            rawContent := Some raw,
                            pipeline := Some ''gemini'',
                            framework := Some ''react'',
                            usedHF := Some (hasDesign design),
                            geminiCalls := Some 1\<rparr>), failed1)
                 else
                   (case parseGeneratedCode raw of
                      (parsedHtml, parsedCss) \<Rightarrow>
                        if parsedHtml \<noteq> [] \<or> parsedCss \<noteq> [] then
                          (Inr (emptyResult
                                  \<lparr>success := True,
                                   files := Some (fallbackFiles parsedHtml parsedCss),
                                   rawContent := Some raw,
                                   pipeline := Some ''gemini'',
                                   framework := Some ''react'',
                                   usedHF := Some (hasDesign design),
                                   geminiCalls := Some 1,
                                   fallback := Some True\<rparr>), failed1)
                        else
                          (Inr (emptyResult
                                  \<lparr>success := False,
                                   error := Some ''Failed to parse generated code'',
                                   files := Some [],
                                   pipeline := Some ''gemini'',
                                   framework := Some ''react''\<rparr>), failed1)))))"

text \<open>\<^verbatim>\<open>generateWithImage(prompt, assets, framework)\<close>, lines 1027 to 1061.\<close>

definition generateWithImage :: "env \<Rightarrow> string \<Rightarrow> asset list \<Rightarrow> string \<Rightarrow> key set \<Rightarrow> routed" where
  "generateWithImage e prompt assets fw failed =
     (let imageAsset = find (\<lambda>a. type a = ''image'') assets;
          (design, calls1) =
            (case imageAsset of
               None \<Rightarrow> (None, [])
             | Some a \<Rightarrow> (if data a \<noteq> [] then (preprocess e (data a), [Preprocessor]) else (None, [])))
      in if fw = ''react'' then
           (case generateReactWithGemini e prompt assets design failed of
              (res, failed1) \<Rightarrow> (res, failed1, calls1 @ [GeminiPipeline]))
         else
           (case generateWebPageWithImages e prompt assets design None failed of
              (Inl exn, failed1, calls) \<Rightarrow> (Inl exn, failed1, calls1 @ [GeminiPipeline])
            | (Inr result, failed1, calls) \<Rightarrow>
                (Inr (result
                        \<lparr>pipeline := Some ''gemini'',
                         framework := Some ''html'',
                         usedHF := Some (hasDesign design)\<rparr>),
                 failed1, calls1 @ [GeminiPipeline])))"

text \<open>\<^verbatim>\<open>generateCode(prompt, assets, framework)\<close>, lines 976 to 993.\<close>

definition generateCode :: "env \<Rightarrow> string \<Rightarrow> asset list \<Rightarrow> string \<Rightarrow> key set \<Rightarrow> routed" where
  "generateCode e prompt assets fw failed =
     (let hasImages = list_ex (\<lambda>a. type a = ''image'') assets
      in if hasImages then generateWithImage e prompt assets fw failed
         else generateTextOnly e prompt fw failed)"

text \<open>
  The payload of the first image asset, \<^verbatim>\<open>assets.find(a => a.type === 'image')?.data\<close>, as
  line 1034 tests it: the empty string when there is no such asset or it has no payload.
\<close>

definition imagePayload :: "asset list \<Rightarrow> string" where
  "imagePayload assets =
     (case find (\<lambda>a. type a = ''image'') assets of None \<Rightarrow> [] | Some a \<Rightarrow> data a)"

subsection \<open>Properties of the credential pool\<close>

lemma random_index_less: "0 < n \<Longrightarrow> random_index r n < n"
  by (simp add: random_index_def)

lemma nth_filter_sat:
  assumes "filter P xs \<noteq> []"
  shows "P (filter P xs ! random_index r (length (filter P xs)))"
proof -
  have "random_index r (length (filter P xs)) < length (filter P xs)"
    using assms by (simp add: random_index_less)
  then have "filter P xs ! random_index r (length (filter P xs)) \<in> set (filter P xs)"
    by (rule nth_mem)
  then show ?thesis by simp
qed

lemma nth_filter_mem:
  assumes "filter P xs \<noteq> []"
  shows "filter P xs ! random_index r (length (filter P xs)) \<in> set xs"
proof -
  have "random_index r (length (filter P xs)) < length (filter P xs)"
    using assms by (simp add: random_index_less)
  then have "filter P xs ! random_index r (length (filter P xs)) \<in> set (filter P xs)"
    by (rule nth_mem)
  then show ?thesis by simp
qed

lemma getRandomKey_None_iff:
  "fst (getRandomKey keys failedKeys excludeKey r) = None \<longleftrightarrow> keys = []"
  by (simp add: getRandomKey_def Let_def)

lemma getRandomKey_mem:
  assumes "fst (getRandomKey keys failedKeys excludeKey r) = Some k"
  shows "k \<in> set keys"
proof (cases "keys = []")
  case True
  with assms show ?thesis by (simp add: getRandomKey_def)
next
  case False
  then have "keys ! 0 \<in> set keys" by simp
  with assms False show ?thesis
    by (auto simp: getRandomKey_def Let_def nth_filter_mem split: if_splits)
qed

text \<open>
  C3, as the claim states it, fails: with the single configured key \<open>A\<close> and \<open>A\<close>
  excluded, the candidate set and the pool minus the excluded key are both empty, and
  the code returns \<open>A\<close> (\<^verbatim>\<open>GEMINI_API_KEYS[0]\<close>), not \<^verbatim>\<open>null\<close>.
\<close>

theorem getRandomKey_only_excluded_counterexample:
  "getRandomKey [''A''] {} (Some ''A'') 0 = (Some ''A'', {})
   \<and> fst (getRandomKey [''A''] {} (Some ''A'') 0) \<noteq> None"
  by (simp add: getRandomKey_def)

text \<open>
  C3, amended: credential selection returns \<^verbatim>\<open>null\<close> exactly when the pool is empty
  (and then leaves the failed set as it is). When the pool is not empty and every
  credential in it is the excluded one, selection clears the failed set and returns the
  first credential of the pool, which is the excluded credential itself.
\<close>

theorem getRandomKey_null_iff_empty_pool:
  "(fst (getRandomKey keys failedKeys excludeKey r) = None \<longleftrightarrow> keys = [])
   \<and> (keys = [] \<longrightarrow> getRandomKey keys failedKeys excludeKey r = (None, failedKeys))
   \<and> (keys \<noteq> [] \<and> (\<forall>k \<in> set keys. Some k = excludeKey) \<longrightarrow>
        getRandomKey keys failedKeys excludeKey r = (Some (hd keys), {}) \<and> Some (hd keys) = excludeKey)"
proof (intro conjI impI)
  show "fst (getRandomKey keys failedKeys excludeKey r) = None \<longleftrightarrow> keys = []"
    by (rule getRandomKey_None_iff)
next
  assume "keys = []"
  then show "getRandomKey keys failedKeys excludeKey r = (None, failedKeys)"
    by (simp add: getRandomKey_def)
next
  assume a: "keys \<noteq> [] \<and> (\<forall>k \<in> set keys. Some k = excludeKey)"
  then have f1: "filter (\<lambda>k. k \<notin> failedKeys \<and> Some k \<noteq> excludeKey) keys = []"
    by (simp add: filter_empty_conv)
  from a have f2: "filter (\<lambda>k. Some k \<noteq> excludeKey) keys = []"
    by (simp add: filter_empty_conv)
  from a have "keys ! 0 = hd keys" by (simp add: hd_conv_nth)
  with a f1 f2 show "getRandomKey keys failedKeys excludeKey r = (Some (hd keys), {})"
    by (simp add: getRandomKey_def)
next
  assume a: "keys \<noteq> [] \<and> (\<forall>k \<in> set keys. Some k = excludeKey)"
  then have "hd keys \<in> set keys" by simp
  with a show "Some (hd keys) = excludeKey" by blast
qed

theorem getRandomKey_null_iff_empty_pool_witness:
  "getRandomKey [] {''B''} (Some ''A'') 5 = (None, {''B''})
   \<and> getRandomKey [''A'', ''A''] {''A''} (Some ''A'') 5 = (Some ''A'', {})
   \<and> fst (getRandomKey [''A'', ''B''] {''B''} (Some ''A'') 5) \<noteq> None"
  using getRandomKey_null_iff_empty_pool [of "[]" "{''B''}" "Some ''A''" 5]
    getRandomKey_null_iff_empty_pool [of "[''A'', ''A'']" "{''A''}" "Some ''A''" 5]
    getRandomKey_null_iff_empty_pool [of "[''A'', ''B'']" "{''B''}" "Some ''A''" 5]
  by simp

text \<open>
  C8: when the pool holds at least one credential other than \<open>X\<close>, selection with
  \<open>X\<close> excluded returns a credential of the pool that is not \<open>X\<close>, whatever the failed
  set and the random draw are. This covers the path on which every other credential is
  marked failed, the failed set is cleared and the choice is made among the whole pool
  minus \<open>X\<close>.
\<close>

theorem getRandomKey_never_excluded:
  assumes "\<exists>k \<in> set keys. k \<noteq> X"
  shows "\<exists>k. fst (getRandomKey keys failedKeys (Some X) r) = Some k \<and> k \<noteq> X \<and> k \<in> set keys"
proof -
  from assms have ne: "keys \<noteq> []" by auto
  from assms have reset: "filter (\<lambda>k. Some k \<noteq> Some X) keys \<noteq> []"
    by (auto simp: filter_empty_conv)
  let ?P = "\<lambda>k. k \<notin> failedKeys \<and> Some k \<noteq> Some X"
  let ?Q = "\<lambda>k. Some k \<noteq> Some X"
  show ?thesis
  proof (cases "filter ?P keys = []")
    case True
    then have eq: "fst (getRandomKey keys failedKeys (Some X) r)
        = Some (filter ?Q keys ! random_index r (length (filter ?Q keys)))"
      using ne reset by (simp add: getRandomKey_def Let_def)
    have "?Q (filter ?Q keys ! random_index r (length (filter ?Q keys)))"
      using reset by (rule nth_filter_sat)
    moreover have "filter ?Q keys ! random_index r (length (filter ?Q keys)) \<in> set keys"
      using reset by (rule nth_filter_mem)
    ultimately show ?thesis using eq by simp
  next
    case False
    then have eq: "fst (getRandomKey keys failedKeys (Some X) r)
        = Some (filter ?P keys ! random_index r (length (filter ?P keys)))"
      using ne by (simp add: getRandomKey_def Let_def)
    have "?P (filter ?P keys ! random_index r (length (filter ?P keys)))"
      using False by (rule nth_filter_sat)
    moreover have "filter ?P keys ! random_index r (length (filter ?P keys)) \<in> set keys"
      using False by (rule nth_filter_mem)
    ultimately show ?thesis using eq by simp
  qed
qed

theorem getRandomKey_never_excluded_witness:
  "(\<exists>k \<in> set [''A'', ''B'', ''C'']. k \<noteq> ''A'')
   \<and> (\<exists>k. fst (getRandomKey [''A'', ''B'', ''C''] {''B'', ''C''} (Some ''A'') 7) = Some k
          \<and> k \<noteq> ''A'' \<and> k \<in> set [''A'', ''B'', ''C''])"
proof -
  have h: "\<exists>k \<in> set [''A'', ''B'', ''C'']. k \<noteq> ''A''" by simp
  show ?thesis
    by (rule conjI [OF h getRandomKey_never_excluded [OF h, of "{''B'', ''C''}" 7]])
qed


subsection \<open>Properties of the string operations and of the live preview\<close>

text \<open>
  The test \<open>starts_ci\<close> read character by character, for evaluation: it stops at the first
  character that differs.
\<close>

lemma starts_ci_code [code]:
  "starts_ci s [] = True"
  "starts_ci [] (p # ps) = False"
  "starts_ci (c # cs) (p # ps) = (if lower c = lower p then starts_ci cs ps else False)"
  by (simp_all add: starts_ci_def toLowerCase_def)


text \<open>
  C10: when the HTML contains \<^verbatim>\<open><!DOCTYPE\<close> or \<^verbatim>\<open><html\<close> but neither \<^verbatim>\<open></head>\<close> nor
  \<^verbatim>\<open><body\<close>, the compiled preview is the HTML unchanged, whatever the CSS is: the CSS
  is not injected anywhere.
\<close>

theorem compileLivePreview_drops_css:
  assumes "includes_str page ''<!DOCTYPE'' \<or> includes_str page ''<html''"
    and "\<not> includes_str page ''</head>''"
    and "\<not> includes_str page ''<body''"
  shows "compileLivePreview page sheet = page"
  using assms by (simp add: compileLivePreview_def)

theorem compileLivePreview_drops_css_witness:
  "(includes_str ''<html><p>Hi</p></html>'' ''<!DOCTYPE'' \<or> includes_str ''<html><p>Hi</p></html>'' ''<html'')
   \<and> \<not> includes_str ''<html><p>Hi</p></html>'' ''</head>''
   \<and> \<not> includes_str ''<html><p>Hi</p></html>'' ''<body''
   \<and> compileLivePreview ''<html><p>Hi</p></html>'' ''p { color: red; }'' = ''<html><p>Hi</p></html>''"
proof -
  have a: "includes_str ''<html><p>Hi</p></html>'' ''<!DOCTYPE'' \<or> includes_str ''<html><p>Hi</p></html>'' ''<html''"
    by (simp add: includes_str_def)
  have b: "\<not> includes_str ''<html><p>Hi</p></html>'' ''</head>''"
    by (simp add: includes_str_def)
  have c: "\<not> includes_str ''<html><p>Hi</p></html>'' ''<body''"
    by (simp add: includes_str_def)
  show ?thesis
    using a b c compileLivePreview_drops_css [OF a b c, of "''p { color: red; }''"] by simp
qed

subsection \<open>Properties of the output parser\<close>


















lemma GEMINI_API_KEYS_no_empty_key: "[] \<notin> set (GEMINI_API_KEYS e)"
  by (simp add: GEMINI_API_KEYS_def)

lemma getRandomKey_configured_key:
  assumes "fst (getRandomKey (GEMINI_API_KEYS e) failedKeys excludeKey r) = Some k"
  shows "k \<noteq> []"
  using getRandomKey_mem [OF assms] GEMINI_API_KEYS_no_empty_key [of e] by auto

subsection \<open>Properties of the prompt optimizer\<close>

lemma lastOk_snoc:
  "lastOk (xs @ [x]) = (case x of Ok200 t \<Rightarrow> Some t | _ \<Rightarrow> lastOk xs)"
  by (induction xs) (auto split: gemini_response.splits option.splits)

lemma optimize_attempts_post:
  assumes "optimize_attempts e u n k j f ldt lro calls = (r, f', calls')"
    and "ldt = shownText e calls"
    and "lro = shownRaw calls"
    and "\<forall>x \<in> set calls. \<not> yieldsValidDesign e x"
    and "length calls = j"
    and "j \<le> 3"
  shows "optimize_post e r calls'"
  using assms
proof (induction e u n k j f ldt lro calls rule: optimize_attempts.induct)
  case (1 e u n k j f ldt lro calls)
  show ?case
  proof (cases "j < maxJsonRetries")
    case False
    with "1.prems" have j3: "j = 3" by (simp add: maxJsonRetries_def)
    from "1.prems"(1) have "r = optimizeExhausted u ldt lro \<and> calls' = calls"
      by (subst (asm) optimize_attempts.simps) (use False in simp)
    then have "r = optimizeExhausted u ldt lro" "calls' = calls" by simp_all
    with "1.prems" j3 show ?thesis
      by (auto simp: optimize_post_def optimizeExhausted_def dest: in_set_butlastD)
  next
    case True
    obtain ck f1 where sel: "(if j = 0 then (Some k, f)
               else getRandomKey (GEMINI_API_KEYS e) f (Some k) (draw e j)) = (ck, f1)"
      by (cases "(if j = 0 then (Some k, f)
               else getRandomKey (GEMINI_API_KEYS e) f (Some k) (draw e j))")
    show ?thesis
    proof (cases ck)
      case None
      with sel have "j \<noteq> 0" by (auto split: if_splits)
      with sel None have "fst (getRandomKey (GEMINI_API_KEYS e) f (Some k) (draw e j)) = None"
        by simp
      then have nokeys: "GEMINI_API_KEYS e = []" by (simp add: getRandomKey_None_iff)
      from "1.prems"(1) have "r = optimizeExhausted u ldt lro \<and> calls' = calls"
        by (subst (asm) optimize_attempts.simps) (use True sel None in simp)
      then have "r = optimizeExhausted u ldt lro" "calls' = calls" by simp_all
      with "1.prems" nokeys show ?thesis
        by (auto simp: optimize_post_def optimizeExhausted_def dest: in_set_butlastD)
    next
      case (Some currentKey)
      have jle: "Suc j \<le> 3" using True by (simp add: maxJsonRetries_def)
      show ?thesis
      proof (cases "gemini e j currentKey")
        case (Rejected msg)
        from "1.prems"(1)
        have run: "optimize_attempts e u n k (Suc j) f1 ldt lro (calls @ [Rejected msg]) = (r, f', calls')"
          by (subst (asm) optimize_attempts.simps) (use True sel Some Rejected in simp)
        show ?thesis
          using "1.IH"(1) [OF True sel [symmetric] Some Rejected run] "1.prems" jle
          by (simp add: shownText_def shownRaw_def lastOk_snoc yieldsValidDesign_def)
      next
        case Status429
        from "1.prems"(1)
        have run: "optimize_attempts e u n k (Suc j) (markKeyFailed currentKey f1) ldt lro (calls @ [Status429]) = (r, f', calls')"
          by (subst (asm) optimize_attempts.simps) (use True sel Some Status429 in simp)
        show ?thesis
          using "1.IH"(2) [OF True sel [symmetric] Some Status429 run] "1.prems" jle
          by (simp add: shownText_def shownRaw_def lastOk_snoc yieldsValidDesign_def)
      next
        case (NotOk msg)
        from "1.prems"(1)
        have run: "optimize_attempts e u n k (Suc j) f1 ldt lro (calls @ [NotOk msg]) = (r, f', calls')"
          by (subst (asm) optimize_attempts.simps) (use True sel Some NotOk in simp)
        show ?thesis
          using "1.IH"(3) [OF True sel [symmetric] Some NotOk run] "1.prems" jle
          by (simp add: shownText_def shownRaw_def lastOk_snoc yieldsValidDesign_def)
      next
        case (Ok200 raw)
        obtain displayText parsedDesign
          where parse: "parseOptimizationOutput (JSON_parse e) raw = (displayText, parsedDesign)"
          by (cases "parseOptimizationOutput (JSON_parse e) raw")
        show ?thesis
        proof (cases "yieldsValidDesign e (Ok200 raw)")
          case True
          then have v: "truthy parsedDesign" "truthyMember parsedDesign ''layout''"
              "truthyMember parsedDesign ''colors''"
            by (simp_all add: yieldsValidDesign_def parse)
          from "1.prems"(1)
          have "r = \<lparr>opt_success = True, opt_error = None, optimizedPrompt = displayText,
                 designJSON = parsedDesign, originalPrompt = u, imagesAnalyzed = Some n,
                 rawOutput = raw\<rparr> \<and> calls' = calls @ [Ok200 raw]"
            by (subst (asm) optimize_attempts.simps)
              (use \<open>j < maxJsonRetries\<close> sel Some Ok200 parse v in auto)
          then have res: "r = \<lparr>opt_success = True, opt_error = None, optimizedPrompt = displayText,
                 designJSON = parsedDesign, originalPrompt = u, imagesAnalyzed = Some n,
                 rawOutput = raw\<rparr>" "calls' = calls @ [Ok200 raw]"
            by simp_all
          with "1.prems" jle True parse show ?thesis
            by (simp add: optimize_post_def)
        next
          case False
          then have inv: "\<not> truthy parsedDesign \<or> \<not> truthyMember parsedDesign ''layout''
              \<or> \<not> truthyMember parsedDesign ''colors''"
            by (simp add: yieldsValidDesign_def parse)
          from "1.prems"(1)
          have run: "optimize_attempts e u n k (Suc j) f1 displayText raw (calls @ [Ok200 raw]) = (r, f', calls')"
            by (subst (asm) optimize_attempts.simps)
              (use \<open>j < maxJsonRetries\<close> sel Some Ok200 parse inv in \<open>auto split: if_splits\<close>)
          have pre: "displayText = shownText e (calls @ [Ok200 raw])" "raw = shownRaw (calls @ [Ok200 raw])"
            by (simp_all add: shownText_def shownRaw_def lastOk_snoc parse)
          have inv': "\<forall>x \<in> set (calls @ [Ok200 raw]). \<not> yieldsValidDesign e x"
            using "1.prems"(4) False by simp
          have len: "length (calls @ [Ok200 raw]) = Suc j" using "1.prems"(5) by simp
          show ?thesis
          proof (cases "truthy parsedDesign")
            case False
            show ?thesis
              using "1.IH"(4) [OF \<open>j < maxJsonRetries\<close> sel [symmetric] Some Ok200 parse [symmetric] False run pre inv' len jle] .
          next
            case True
            with inv have m: "\<not> truthyMember parsedDesign ''layout'' \<or> \<not> truthyMember parsedDesign ''colors''"
              by simp
            have t: "\<not> \<not> truthy parsedDesign" using True by simp
            show ?thesis
              using "1.IH"(5) [OF \<open>j < maxJsonRetries\<close> sel [symmetric] Some Ok200 parse [symmetric] t m run pre inv' len jle] .
          qed
        qed
      qed
    qed
  qed
qed

lemma optimizePrompt_Inr:
  assumes "optimizePrompt e userPrompt assets failed = (Inr r, failed', calls)"
  shows "GEMINI_API_KEYS e \<noteq> [] \<and> optimize_post e r calls"
proof -
  obtain ck f1 where sel: "getRandomKey (GEMINI_API_KEYS e) failed None (draw e 0) = (ck, f1)"
    by (cases "getRandomKey (GEMINI_API_KEYS e) failed None (draw e 0)")
  show ?thesis
  proof (cases ck)
    case None
    with sel assms show ?thesis by (simp add: optimizePrompt_def)
  next
    case (Some apiKey)
    with sel have "fst (getRandomKey (GEMINI_API_KEYS e) failed None (draw e 0)) \<noteq> None" by simp
    then have keys: "GEMINI_API_KEYS e \<noteq> []" by (simp add: getRandomKey_None_iff)
    let ?n = "length (filter (\<lambda>a. type a = ''image'') assets)"
    from assms sel Some
    have run: "optimize_attempts e userPrompt ?n apiKey 0 f1 [] [] [] = (r, failed', calls)"
      by (auto simp: optimizePrompt_def Let_def split: prod.splits)
    have "optimize_post e r calls"
      by (rule optimize_attempts_post [OF run]) (simp_all add: shownText_def shownRaw_def)
    with keys show ?thesis by simp
  qed
qed

lemma optimizePrompt_returns:
  assumes "GEMINI_API_KEYS e \<noteq> []"
  shows "\<exists>r failed' calls. optimizePrompt e userPrompt assets failed = (Inr r, failed', calls)"
proof -
  obtain ck f1 where sel: "getRandomKey (GEMINI_API_KEYS e) failed None (draw e 0) = (ck, f1)"
    by (cases "getRandomKey (GEMINI_API_KEYS e) failed None (draw e 0)")
  then have "fst (getRandomKey (GEMINI_API_KEYS e) failed None (draw e 0)) = ck" by simp
  with assms obtain apiKey where "ck = Some apiKey"
    using getRandomKey_None_iff [of "GEMINI_API_KEYS e" failed None "draw e 0"] by (cases ck) auto
  with sel show ?thesis
    by (simp add: optimizePrompt_def Let_def split: prod.splits)
qed

lemma optimizePrompt_throws:
  assumes "GEMINI_API_KEYS e = []"
  shows "optimizePrompt e userPrompt assets failed = (Inl noGeminiKeys, failed, [])"
  using assms by (simp add: optimizePrompt_def getRandomKey_def)

lemma truthyMember_object:
  assumes "truthy v" and "truthyMember v fld"
  shows "\<exists>members m. v = JObject members \<and> map_of members fld = Some m \<and> truthy m"
  using assms by (cases v) (auto simp: truthyMember_def split: option.splits)

text \<open>
  C2: whenever \<^verbatim>\<open>optimizePrompt\<close> returns an object with \<^verbatim>\<open>success = true\<close>, its
  \<^verbatim>\<open>designJSON\<close> is a JSON object, parsed from the provider's last answer, in which the
  members \<^verbatim>\<open>layout\<close> and \<^verbatim>\<open>colors\<close> are both present (and truthy). An answer that does not
  yield such a design is never the one returned as a success, and when it comes in the
  first or the second attempt another attempt follows it.
\<close>

theorem optimizePrompt_success_design_valid:
  assumes "optimizePrompt e userPrompt assets failed = (Inr r, failed', calls)"
  shows "(opt_success r \<longrightarrow>
           (\<exists>members layoutValue colorsValue raw.
              designJSON r = JObject members
              \<and> map_of members ''layout'' = Some layoutValue \<and> truthy layoutValue
              \<and> map_of members ''colors'' = Some colorsValue \<and> truthy colorsValue
              \<and> calls \<noteq> [] \<and> last calls = Ok200 raw
              \<and> designJSON r = snd (parseOptimizationOutput (JSON_parse e) raw)))
         \<and> (\<forall>i < length calls. \<not> yieldsValidDesign e (calls ! i) \<longrightarrow>
               (opt_success r \<longrightarrow> Suc i < length calls) \<and> (i < 2 \<longrightarrow> Suc i < length calls))"
proof -
  from optimizePrompt_Inr [OF assms]
  have keys: "GEMINI_API_KEYS e \<noteq> []" and post: "optimize_post e r calls" by simp_all
  have part1: "\<exists>members layoutValue colorsValue raw.
              designJSON r = JObject members
              \<and> map_of members ''layout'' = Some layoutValue \<and> truthy layoutValue
              \<and> map_of members ''colors'' = Some colorsValue \<and> truthy colorsValue
              \<and> calls \<noteq> [] \<and> last calls = Ok200 raw
              \<and> designJSON r = snd (parseOptimizationOutput (JSON_parse e) raw)"
    if s: "opt_success r"
  proof -
    from post s obtain raw where ne: "calls \<noteq> []" and v: "yieldsValidDesign e (last calls)"
      and l: "last calls = Ok200 raw"
      and d: "designJSON r = snd (parseOptimizationOutput (JSON_parse e) raw)"
      by (auto simp: optimize_post_def)
    from v l d have t: "truthy (designJSON r)" "truthyMember (designJSON r) ''layout''"
        "truthyMember (designJSON r) ''colors''"
      by (auto simp: yieldsValidDesign_def split: prod.splits)
    from truthyMember_object [OF t(1) t(2)] obtain members layoutValue
      where o: "designJSON r = JObject members" "map_of members ''layout'' = Some layoutValue"
        "truthy layoutValue" by blast
    from truthyMember_object [OF t(1) t(3)] o(1) obtain colorsValue
      where c: "map_of members ''colors'' = Some colorsValue" "truthy colorsValue" by auto
    from o c ne l d show ?thesis by blast
  qed
  have part2: "(opt_success r \<longrightarrow> Suc i < length calls) \<and> (i < 2 \<longrightarrow> Suc i < length calls)"
    if i: "i < length calls" and bad: "\<not> yieldsValidDesign e (calls ! i)" for i
  proof (cases "opt_success r")
    case True
    with post have ne: "calls \<noteq> []" and v: "yieldsValidDesign e (last calls)"
      by (auto simp: optimize_post_def)
    from ne have "last calls = calls ! (length calls - 1)" by (rule last_conv_nth)
    with v bad have "i \<noteq> length calls - 1" by auto
    with i have "Suc i < length calls" by simp
    then show ?thesis by simp
  next
    case False
    with post keys have "length calls = 3" by (simp add: optimize_post_def)
    with False show ?thesis by auto
  qed
  from part1 part2 show ?thesis by blast
qed

theorem optimizePrompt_success_design_valid_witness:
  \<open>optimizePrompt
      \<lparr>VITE_GEMINI_API_KEYS = ''k1, k2'', SAMBANOVA_API_KEY = [], draw = (\<lambda>n. 0),
       gemini = (\<lambda>n k. if n = 0 then Ok200 ''---JSON---{"layout":{}}''
                        else Ok200 ''---TEXT--- Dark. ---JSON---{"layout":{},"colors":{}}''),
       JSON_parse = (\<lambda>s. if s = ''{"layout":{}}'' then Some (JObject [(''layout'', JObject [])])
                         else if s = ''{"layout":{},"colors":{}}''
                         then Some (JObject [(''layout'', JObject []), (''colors'', JObject [])])
                         else None),
       sambaNova = (\<lambda>p. Threw []), preprocess = (\<lambda>d. None), parseReactOutput = (\<lambda>s. Inr []),
       generateReactApp = (\<lambda>p. Inl [])\<rparr>
      ''dark page'' [] {}
    = (Inr \<lparr>opt_success = True, opt_error = None, optimizedPrompt = ''Dark.'',
            designJSON = JObject [(''layout'', JObject []), (''colors'', JObject [])],
            originalPrompt = ''dark page'', imagesAnalyzed = Some 0,
            rawOutput = ''---TEXT--- Dark. ---JSON---{"layout":{},"colors":{}}''\<rparr>,
       {},
       [Ok200 ''---JSON---{"layout":{}}'',
        Ok200 ''---TEXT--- Dark. ---JSON---{"layout":{},"colors":{}}''])
   \<and> (\<exists>members layoutValue colorsValue.
         JObject [(''layout'', JObject []), (''colors'', JObject [])] = JObject members
         \<and> map_of members ''layout'' = Some layoutValue \<and> truthy layoutValue
         \<and> map_of members ''colors'' = Some colorsValue \<and> truthy colorsValue)\<close>
  (is "?run \<and> ?design")
proof -
  have run: ?run by code_simp
  from optimizePrompt_success_design_valid [OF run] have design: ?design by simp
  show ?thesis by (rule conjI [OF run design])
qed

text \<open>
  C7: one call of \<^verbatim>\<open>optimizePrompt\<close> makes at most three provider calls. With at least
  one key configured it returns an object; that object is a success exactly when one of
  the answers yielded a valid design, and otherwise, after three calls, it is the
  failure object, whose \<^verbatim>\<open>optimizedPrompt\<close> is the display text extracted from the last
  successful answer and whose \<^verbatim>\<open>rawOutput\<close> is the text of that answer (both empty when
  no call succeeded).
\<close>

theorem optimizePrompt_three_attempts_text_kept:
  assumes "optimizePrompt e userPrompt assets failed = (res, failed', calls)"
  shows "length calls \<le> 3
         \<and> (GEMINI_API_KEYS e \<noteq> [] \<longrightarrow>
              (\<exists>r. res = Inr r
                 \<and> (opt_success r \<longleftrightarrow> (\<exists>x \<in> set calls. yieldsValidDesign e x))
                 \<and> (\<not> opt_success r \<longrightarrow>
                       length calls = 3 \<and> opt_error r \<noteq> None
                       \<and> optimizedPrompt r = shownText e calls
                       \<and> rawOutput r = shownRaw calls)))"
proof (cases "GEMINI_API_KEYS e = []")
  case True
  with assms optimizePrompt_throws [OF True, of userPrompt assets failed] show ?thesis by simp
next
  case False
  from optimizePrompt_returns [OF False, of userPrompt assets failed] assms
  obtain r where r: "res = Inr r" by auto
  from optimizePrompt_Inr [OF assms [unfolded r]] have post: "optimize_post e r calls" by simp
  have "opt_success r \<longleftrightarrow> (\<exists>x \<in> set calls. yieldsValidDesign e x)"
  proof
    assume "opt_success r"
    with post have "calls \<noteq> [] \<and> yieldsValidDesign e (last calls)"
      unfolding optimize_post_def by blast
    then have "calls \<noteq> []" "yieldsValidDesign e (last calls)" by simp_all
    then show "\<exists>x \<in> set calls. yieldsValidDesign e x" using last_in_set by blast
  next
    assume "\<exists>x \<in> set calls. yieldsValidDesign e x"
    with post show "opt_success r" by (auto simp: optimize_post_def)
  qed
  moreover from post False have "\<not> opt_success r \<longrightarrow>
        length calls = 3 \<and> opt_error r \<noteq> None
        \<and> optimizedPrompt r = shownText e calls \<and> rawOutput r = shownRaw calls"
    by (simp add: optimize_post_def)
  moreover from post have "length calls \<le> 3" by (simp add: optimize_post_def)
  ultimately show ?thesis using r False by simp
qed

theorem optimizePrompt_three_attempts_text_kept_witness:
  \<open>optimizePrompt
      \<lparr>VITE_GEMINI_API_KEYS = ''k1, k2'', SAMBANOVA_API_KEY = [], draw = (\<lambda>n. 0),
       gemini = (\<lambda>n k. if n = 0 then Ok200 ''---TEXT--- First. ---JSON---{}''
                        else if n = 1 then Ok200 ''---TEXT--- Second. ---JSON---{"layout":{}}''
                        else Status429),
       JSON_parse = (\<lambda>s. if s = ''{}'' then Some (JObject [])
                         else if s = ''{"layout":{}}'' then Some (JObject [(''layout'', JObject [])])
                         else None),
       sambaNova = (\<lambda>p. Threw []), preprocess = (\<lambda>d. None), parseReactOutput = (\<lambda>s. Inr []),
       generateReactApp = (\<lambda>p. Inl [])\<rparr>
      ''dark page'' [] {}
    = (Inr \<lparr>opt_success = False,
            opt_error = Some ''Failed to extract design JSON after multiple attempts. Please try again.'',
            optimizedPrompt = ''Second.'', designJSON = JNull,
            originalPrompt = ''dark page'', imagesAnalyzed = None,
            rawOutput = ''---TEXT--- Second. ---JSON---{"layout":{}}''\<rparr>,
       {''k2''},
       [Ok200 ''---TEXT--- First. ---JSON---{}'',
        Ok200 ''---TEXT--- Second. ---JSON---{"layout":{}}'',
        Status429])
   \<and> length [Ok200 ''---TEXT--- First. ---JSON---{}'',
        Ok200 ''---TEXT--- Second. ---JSON---{"layout":{}}'',
        Status429] \<le> 3\<close>
  (is "?run \<and> ?bound")
proof -
  have run: ?run by code_simp
  from optimizePrompt_three_attempts_text_kept [OF run] have bound: ?bound by simp
  show ?thesis by (rule conjI [OF run bound])
qed

subsection \<open>Properties of page generation\<close>

lemma generationFailed_not_success: "\<not> success (generationFailed lastError)"
  by (simp add: generationFailed_def emptyResult_def)

lemma generate_attempts_success:
  assumes "generate_attempts e n w k a f le calls = (r, f', calls')"
    and "success r"
  shows "\<exists>body h c. rawContent r = Some body \<and> parseGeneratedCode body = (h, c)
           \<and> html r = Some h \<and> css r = Some c \<and> 100 \<le> length h \<and> 50 \<le> length c
           \<and> calls' \<noteq> [] \<and> last calls' = Ok200 body"
  using assms
proof (induction e n w k a f le calls rule: generate_attempts.induct)
  case (1 e n w k a f le calls)
  show ?case
  proof (cases "a < min 3 (length (GEMINI_API_KEYS e))")
    case False
    from "1.prems"(1) have "r = generationFailed le"
      by (subst (asm) generate_attempts.simps) (use False in \<open>simp del: min_less_iff_conj\<close>)
    with "1.prems"(2) show ?thesis by (simp add: generationFailed_not_success)
  next
    case True
    obtain ck f1 where sel: "(if a = 0 then (Some k, f)
               else getRandomKey (GEMINI_API_KEYS e) f (Some k) (draw e a)) = (ck, f1)"
      by (cases "(if a = 0 then (Some k, f)
               else getRandomKey (GEMINI_API_KEYS e) f (Some k) (draw e a))")
    show ?thesis
    proof (cases ck)
      case None
      from "1.prems"(1) have "r = generationFailed le"
        by (subst (asm) generate_attempts.simps) (use True sel None in \<open>simp del: min_less_iff_conj\<close>)
      with "1.prems"(2) show ?thesis by (simp add: generationFailed_not_success)
    next
      case (Some currentKey)
      show ?thesis
      proof (cases "gemini e a currentKey")
        case (Rejected msg)
        from "1.prems"(1)
        have run: "generate_attempts e n w k (Suc a) f1 (Some msg) (calls @ [Rejected msg]) = (r, f', calls')"
          by (subst (asm) generate_attempts.simps) (use True sel Some Rejected in \<open>simp del: min_less_iff_conj\<close>)
        show ?thesis
          by (rule "1.IH"(1) [OF True sel [symmetric] Some Rejected run "1.prems"(2)])
      next
        case Status429
        from "1.prems"(1)
        have run: "generate_attempts e n w k (Suc a) (markKeyFailed currentKey f1) le (calls @ [Status429]) = (r, f', calls')"
          by (subst (asm) generate_attempts.simps) (use True sel Some Status429 in \<open>simp del: min_less_iff_conj\<close>)
        show ?thesis
          by (rule "1.IH"(2) [OF True sel [symmetric] Some Status429 run "1.prems"(2)])
      next
        case (NotOk msg)
        from "1.prems"(1)
        have run: "generate_attempts e n w k (Suc a) f1 (Some msg) (calls @ [NotOk msg]) = (r, f', calls')"
          by (subst (asm) generate_attempts.simps) (use True sel Some NotOk in \<open>simp del: min_less_iff_conj\<close>)
        show ?thesis
          by (rule "1.IH"(3) [OF True sel [symmetric] Some NotOk run "1.prems"(2)])
      next
        case (Ok200 body)
        obtain h c where parse: "parseGeneratedCode body = (h, c)"
          by (cases "parseGeneratedCode body")
        show ?thesis
        proof (cases "h = [] \<or> length h < 100")
          case short: True
          from "1.prems"(1)
          have run: "generate_attempts e n w k (Suc a) f1 le (calls @ [Ok200 body]) = (r, f', calls')"
            by (subst (asm) generate_attempts.simps) (use True sel Some Ok200 parse short in \<open>simp del: min_less_iff_conj\<close>)
          show ?thesis
            by (rule "1.IH"(4) [OF True sel [symmetric] Some Ok200 parse [symmetric] short run "1.prems"(2)])
        next
          case long: False
          show ?thesis
          proof (cases "c = [] \<or> length c < 50")
            case cshort: True
            from "1.prems"(1)
            have run: "generate_attempts e n w k (Suc a) f1 le (calls @ [Ok200 body]) = (r, f', calls')"
              by (subst (asm) generate_attempts.simps) (use True sel Some Ok200 parse long cshort in \<open>simp del: min_less_iff_conj\<close>)
            show ?thesis
              by (rule "1.IH"(5) [OF True sel [symmetric] Some Ok200 parse [symmetric] long cshort run "1.prems"(2)])
          next
            case clong: False
            from "1.prems"(1)
            have "r = emptyResult\<lparr>success := True, html := Some h, css := Some c,
                      rawContent := Some body, usedImages := Some n, usedJSON := Some w\<rparr>
                   \<and> calls' = calls @ [Ok200 body]"
              by (subst (asm) generate_attempts.simps) (use True sel Some Ok200 parse long clong in \<open>auto simp del: min_less_iff_conj\<close>)
            with parse long clong show ?thesis by (simp add: emptyResult_def)
          qed
        qed
      qed
    qed
  qed
qed

lemma generateWebPageWithImages_success:
  assumes "generateWebPageWithImages e prompt assets design excludeKey failed = (Inr r, failed', calls)"
    and "success r"
  shows "\<exists>body h c. rawContent r = Some body \<and> parseGeneratedCode body = (h, c)
           \<and> html r = Some h \<and> css r = Some c \<and> 100 \<le> length h \<and> 50 \<le> length c
           \<and> calls \<noteq> [] \<and> last calls = Ok200 body"
proof -
  obtain ck f1 where sel: "getRandomKey (GEMINI_API_KEYS e) failed excludeKey (draw e 0) = (ck, f1)"
    by (cases "getRandomKey (GEMINI_API_KEYS e) failed excludeKey (draw e 0)")
  show ?thesis
  proof (cases ck)
    case None
    with sel assms(1) show ?thesis by (simp add: generateWebPageWithImages_def)
  next
    case (Some apiKey)
    let ?n = "length (filter (\<lambda>a. type a = ''image'') assets)"
    from assms(1) sel Some
    have run: "generate_attempts e ?n (hasDesign design) apiKey 0 f1 None [] = (r, failed', calls)"
      by (auto simp: generateWebPageWithImages_def Let_def split: prod.splits)
    show ?thesis by (rule generate_attempts_success [OF run assms(2)])
  qed
qed

lemma generateWebPageWithImages_returns:
  assumes "GEMINI_API_KEYS e \<noteq> []"
  shows "\<exists>r failed' calls.
           generateWebPageWithImages e prompt assets design excludeKey failed = (Inr r, failed', calls)"
proof -
  obtain ck f1 where sel: "getRandomKey (GEMINI_API_KEYS e) failed excludeKey (draw e 0) = (ck, f1)"
    by (cases "getRandomKey (GEMINI_API_KEYS e) failed excludeKey (draw e 0)")
  then have "fst (getRandomKey (GEMINI_API_KEYS e) failed excludeKey (draw e 0)) = ck" by simp
  with assms obtain apiKey where "ck = Some apiKey"
    using getRandomKey_None_iff [of "GEMINI_API_KEYS e" failed excludeKey "draw e 0"] by (cases ck) auto
  with sel show ?thesis
    by (simp add: generateWebPageWithImages_def Let_def split: prod.splits)
qed

lemma generateWebPageWithImages_throws:
  assumes "GEMINI_API_KEYS e = []"
  shows "generateWebPageWithImages e prompt assets design excludeKey failed = (Inl noGeminiKeys, failed, [])"
  using assms by (simp add: generateWebPageWithImages_def getRandomKey_def)


subsection \<open>Properties of the router\<close>

lemma list_ex_find:
  assumes "list_ex P xs"
  shows "\<exists>x. find P xs = Some x \<and> P x"
  using assms by (induction xs) auto





text \<open>The image path, written with the payload of the first image asset.\<close>

lemma generateWithImage_payload:
  "generateWithImage e prompt assets fw failed =
     (let payload = imagePayload assets;
          design = (if payload \<noteq> [] then preprocess e payload else None);
          attempted = (if payload \<noteq> [] then [Preprocessor] else [])
      in if fw = ''react'' then
           (case generateReactWithGemini e prompt assets design failed of
              (res, failed') \<Rightarrow> (res, failed', attempted @ [GeminiPipeline]))
         else
           (case generateWebPageWithImages e prompt assets design None failed of
              (res, failed', calls) \<Rightarrow>
                (map_sum id (\<lambda>r. r\<lparr>pipeline := Some ''gemini'', framework := Some ''html'',
                                     usedHF := Some (hasDesign design)\<rparr>) res,
                 failed', attempted @ [GeminiPipeline])))"
proof -
  obtain res f1 c1 where w: "generateWebPageWithImages e prompt assets
      (if imagePayload assets \<noteq> [] then preprocess e (imagePayload assets) else None) None failed = (res, f1, c1)"
    by (cases "generateWebPageWithImages e prompt assets
      (if imagePayload assets \<noteq> [] then preprocess e (imagePayload assets) else None) None failed")
  obtain res2 f2 where g: "generateReactWithGemini e prompt assets
      (if imagePayload assets \<noteq> [] then preprocess e (imagePayload assets) else None) failed = (res2, f2)"
    by (cases "generateReactWithGemini e prompt assets
      (if imagePayload assets \<noteq> [] then preprocess e (imagePayload assets) else None) failed")
  show ?thesis
  proof (cases "find (\<lambda>a. type a = ''image'') assets")
    case None
    with w g show ?thesis
      by (cases res) (simp_all add: generateWithImage_def imagePayload_def Let_def)
  next
    case (Some a)
    with w g show ?thesis
      by (cases res; cases "data a = []") (simp_all add: generateWithImage_def imagePayload_def Let_def)
  qed
qed






text \<open>
  Where no document tag matches, the removal leaves the text as it is: a recovered HTML
  without such tags goes into \<^verbatim>\<open>App.tsx\<close> unchanged, line by line.
\<close>

lemma remove_matches_no_match:
  assumes "\<forall>t. suffix t s \<longrightarrow> m t = None"
  shows "remove_matches m 0 s = s"
  using assms
proof (induction s)
  case Nil
  show ?case by simp
next
  case (Cons c cs)
  from Cons.prems have here: "m (c # cs) = None" by simp
  from Cons.prems have "\<forall>t. suffix t cs \<longrightarrow> m t = None" by (simp add: suffix_ConsI)
  with Cons.IH here show ?case by simp
qed




text \<open>
  C6, as the claim states it, fails: with no Gemini key configured, \<^verbatim>\<open>optimizePrompt\<close>
  throws instead of returning a result.
\<close>

theorem optimizePrompt_no_keys_counterexample:
  "optimizePrompt
     \<lparr>VITE_GEMINI_API_KEYS = [], SAMBANOVA_API_KEY = ''sk'', draw = (\<lambda>n. 0),
      gemini = (\<lambda>n k. Status429), JSON_parse = (\<lambda>s. None),
      sambaNova = (\<lambda>q. Threw ''down''), preprocess = (\<lambda>d. None),
      parseReactOutput = (\<lambda>s. Inr []), generateReactApp = (\<lambda>p. Inl [])\<rparr>
     ''a page'' [] {}
   = (Inl ''No Gemini API keys configured. Please set VITE_GEMINI_API_KEYS in your .env file.'', {}, [])"
  by code_simp

text \<open>
  What leaves the React generation: the configuration error without a Gemini key, and
  otherwise a result object or what \<^verbatim>\<open>parseReactOutput\<close> throws.
\<close>

lemma generateReactWithGemini_throws:
  assumes "GEMINI_API_KEYS e = []"
  shows "generateReactWithGemini e prompt assets design failed = (Inl noGeminiKeys, failed)"
  using generateWebPageWithImages_throws [OF assms, of prompt assets design None failed]
  by (simp add: generateReactWithGemini_def)

lemma generateReactWithGemini_outcome:
  assumes "GEMINI_API_KEYS e \<noteq> []"
  shows "(\<exists>r failed'. generateReactWithGemini e prompt assets design failed = (Inr r, failed'))
       \<or> (\<exists>raw exn failed'. parseReactOutput e raw = Inl exn
              \<and> generateReactWithGemini e prompt assets design failed = (Inl exn, failed'))"
proof -
  from generateWebPageWithImages_returns [OF assms, of prompt assets design None failed]
  obtain r0 f0 c0 where w: "generateWebPageWithImages e prompt assets design None failed = (Inr r0, f0, c0)"
    by blast
  let ?raw = "case rawContent r0 of None \<Rightarrow> [] | Some text \<Rightarrow> text"
  show ?thesis
  proof (cases "success r0")
    case False
    with w show ?thesis by (simp add: generateReactWithGemini_def)
  next
    case True
    show ?thesis
    proof (cases "parseReactOutput e ?raw")
      case (Inl exn)
      with w True have "generateReactWithGemini e prompt assets design failed = (Inl exn, f0)"
        by (simp add: generateReactWithGemini_def Let_def)
      with Inl show ?thesis by blast
    next
      case (Inr parsedFiles)
      with w True have "\<exists>r. generateReactWithGemini e prompt assets design failed = (Inr r, f0)"
        by (simp add: generateReactWithGemini_def Let_def split: prod.splits)
      then show ?thesis by blast
    qed
  qed
qed

text \<open>
  C6, amended: what each public entry point does in place of the claimed "never throws".
  \<^item> \<^verbatim>\<open>optimizePrompt\<close> and \<^verbatim>\<open>generateWebPageWithImages\<close> throw the configuration error
    when no Gemini key is configured, and return a result object for every input and
    provider behaviour when one is.
  \<^item> The router on a request with an image throws that same error when no Gemini key is
    configured. With a key it returns a result object in HTML mode; in React mode it
    returns a result object or throws what \<^verbatim>\<open>parseReactOutput\<close> throws.
  \<^item> The router on a request without image returns a result object in HTML mode, for
    every input and configuration; without a SambaNova key that result is a failure
    with the message of the missing key. In React mode it returns when
    \<^verbatim>\<open>generateReactApp\<close> returns and throws what \<^verbatim>\<open>generateReactApp\<close> throws.
  \<^item> \<^verbatim>\<open>chat\<close> returns a result object for every input and configuration; without a
    SambaNova key that result is a failure with the message of the missing key.
\<close>

theorem entry_points_return_or_throw:
  "(GEMINI_API_KEYS e = [] \<longrightarrow>
      optimizePrompt e userPrompt assets failed = (Inl noGeminiKeys, failed, [])
      \<and> generateWebPageWithImages e prompt assets design excludeKey failed = (Inl noGeminiKeys, failed, [])
      \<and> (list_ex (\<lambda>a. type a = ''image'') assets \<longrightarrow>
            (\<exists>trace. generateCode e prompt assets fw failed = (Inl noGeminiKeys, failed, trace))))
   \<and> (GEMINI_API_KEYS e \<noteq> [] \<longrightarrow>
      (\<exists>r failed' calls. optimizePrompt e userPrompt assets failed = (Inr r, failed', calls))
      \<and> (\<exists>r failed' calls.
            generateWebPageWithImages e prompt assets design excludeKey failed = (Inr r, failed', calls))
      \<and> (list_ex (\<lambda>a. type a = ''image'') assets \<and> fw \<noteq> ''react'' \<longrightarrow>
            (\<exists>r failed' trace. generateCode e prompt assets fw failed = (Inr r, failed', trace)))
      \<and> (list_ex (\<lambda>a. type a = ''image'') assets \<and> fw = ''react'' \<longrightarrow>
            (\<exists>r failed' trace. generateCode e prompt assets fw failed = (Inr r, failed', trace))
            \<or> (\<exists>raw exn failed' trace. parseReactOutput e raw = Inl exn
                  \<and> generateCode e prompt assets fw failed = (Inl exn, failed', trace))))
   \<and> (\<not> list_ex (\<lambda>a. type a = ''image'') assets \<and> fw \<noteq> ''react'' \<longrightarrow>
        (\<exists>r. generateCode e prompt assets fw failed = (Inr r, failed, [SambaNovaPipeline])
           \<and> (SAMBANOVA_API_KEY e = [] \<longrightarrow> \<not> success r \<and> error r = Some ''SambaNova API key not configured. Please set VITE_SAMBANOVA_API_KEY in your environment.'')))
   \<and> (\<not> list_ex (\<lambda>a. type a = ''image'') assets \<and> fw = ''react'' \<longrightarrow>
        (\<forall>exn. generateReactApp e prompt = Inl exn \<longrightarrow>
           generateCode e prompt assets fw failed = (Inl exn, failed, [SambaNovaPipeline]))
        \<and> (\<forall>app. generateReactApp e prompt = Inr app \<longrightarrow>
           (\<exists>r. generateCode e prompt assets fw failed = (Inr r, failed, [SambaNovaPipeline]))))
   \<and> (\<exists>r. chat e message taskType context = Inr r
          \<and> (SAMBANOVA_API_KEY e = [] \<longrightarrow>
                \<not> chat_success r \<and> chat_error r = Some ''SambaNova API key not configured. Please set VITE_SAMBANOVA_API_KEY in your environment.'' \<and> chat_content r = []))"
proof (intro conjI impI)
  assume k: "GEMINI_API_KEYS e = []"
  show "optimizePrompt e userPrompt assets failed = (Inl noGeminiKeys, failed, [])"
    by (rule optimizePrompt_throws [OF k])
  show "generateWebPageWithImages e prompt assets design excludeKey failed = (Inl noGeminiKeys, failed, [])"
    by (rule generateWebPageWithImages_throws [OF k])
  assume img: "list_ex (\<lambda>a. type a = ''image'') assets"
  show "\<exists>trace. generateCode e prompt assets fw failed = (Inl noGeminiKeys, failed, trace)"
    using img generateWithImage_payload [of e prompt assets fw failed]
      generateWebPageWithImages_throws [OF k, of prompt assets _ None failed]
      generateReactWithGemini_throws [OF k, of prompt assets _ failed]
    by (simp add: generateCode_def Let_def)
next
  assume k: "GEMINI_API_KEYS e \<noteq> []"
  show "\<exists>r failed' calls. optimizePrompt e userPrompt assets failed = (Inr r, failed', calls)"
    by (rule optimizePrompt_returns [OF k])
  show "\<exists>r failed' calls.
      generateWebPageWithImages e prompt assets design excludeKey failed = (Inr r, failed', calls)"
    by (rule generateWebPageWithImages_returns [OF k])
  let ?design = "if imagePayload assets \<noteq> [] then preprocess e (imagePayload assets) else None"
  {
    assume a: "list_ex (\<lambda>a. type a = ''image'') assets \<and> fw \<noteq> ''react''"
    from generateWebPageWithImages_returns [OF k, of prompt assets ?design None failed]
    obtain r0 f0 c0 where "generateWebPageWithImages e prompt assets ?design None failed = (Inr r0, f0, c0)"
      by blast
    with a generateWithImage_payload [of e prompt assets fw failed]
    show "\<exists>r failed' trace. generateCode e prompt assets fw failed = (Inr r, failed', trace)"
      by (simp add: generateCode_def Let_def)
  }
  {
    assume a: "list_ex (\<lambda>a. type a = ''image'') assets \<and> fw = ''react''"
    from a generateWithImage_payload [of e prompt assets fw failed]
    have route: "generateCode e prompt assets fw failed =
        (case generateReactWithGemini e prompt assets ?design failed of
           (res, failed') \<Rightarrow> (res, failed',
              (if imagePayload assets \<noteq> [] then [Preprocessor] else []) @ [GeminiPipeline]))"
      by (simp add: generateCode_def Let_def)
    from generateReactWithGemini_outcome [OF k, of prompt assets ?design failed]
    show "(\<exists>r failed' trace. generateCode e prompt assets fw failed = (Inr r, failed', trace))
            \<or> (\<exists>raw exn failed' trace. parseReactOutput e raw = Inl exn
                  \<and> generateCode e prompt assets fw failed = (Inl exn, failed', trace))"
    proof (elim disjE exE conjE)
      fix r failed'
      assume "generateReactWithGemini e prompt assets ?design failed = (Inr r, failed')"
      with route show ?thesis by simp
    next
      fix raw exn failed'
      assume "parseReactOutput e raw = Inl exn"
        and "generateReactWithGemini e prompt assets ?design failed = (Inl exn, failed')"
      with route show ?thesis by auto
    qed
  }
next
  assume a: "\<not> list_ex (\<lambda>a. type a = ''image'') assets \<and> fw \<noteq> ''react''"
  then show "\<exists>r. generateCode e prompt assets fw failed = (Inr r, failed, [SambaNovaPipeline])
           \<and> (SAMBANOVA_API_KEY e = [] \<longrightarrow> \<not> success r \<and> error r = Some ''SambaNova API key not configured. Please set VITE_SAMBANOVA_API_KEY in your environment.'')"
    by (simp add: generateCode_def generateTextOnly_def generateWebPage_def callSambaNova_def
        emptyResult_def)
next
  assume a: "\<not> list_ex (\<lambda>a. type a = ''image'') assets \<and> fw = ''react''"
  then show "\<forall>exn. generateReactApp e prompt = Inl exn \<longrightarrow>
           generateCode e prompt assets fw failed = (Inl exn, failed, [SambaNovaPipeline])"
    by (simp add: generateCode_def generateTextOnly_def)
  from a show "\<forall>app. generateReactApp e prompt = Inr app \<longrightarrow>
           (\<exists>r. generateCode e prompt assets fw failed = (Inr r, failed, [SambaNovaPipeline]))"
    by (simp add: generateCode_def generateTextOnly_def)
next
  show "\<exists>r. chat e message taskType context = Inr r
          \<and> (SAMBANOVA_API_KEY e = [] \<longrightarrow>
                \<not> chat_success r \<and> chat_error r = Some ''SambaNova API key not configured. Please set VITE_SAMBANOVA_API_KEY in your environment.'' \<and> chat_content r = [])"
    by (simp add: chat_def sambaNova_generateCode_def analyzeSyllabus_def analyzeBoxModel_def
        generateExplanation_def askSambaNova_def callSambaNova_def)
qed

theorem entry_points_return_or_throw_witness:
  "optimizePrompt
       \<lparr>VITE_GEMINI_API_KEYS = [], SAMBANOVA_API_KEY = [], draw = (\<lambda>n. 0),
        gemini = (\<lambda>n k. Rejected ''offline''), JSON_parse = (\<lambda>s. None),
        sambaNova = (\<lambda>q. Threw ''down''), preprocess = (\<lambda>d. None),
        parseReactOutput = (\<lambda>s. Inr []), generateReactApp = (\<lambda>p. Inl ''network error'')\<rparr>
       ''a page'' [\<lparr>type = ''image'', data = ''data:image/png;base64,AAAA'', name = ''shot.png''\<rparr>] {} = (Inl ''No Gemini API keys configured. Please set VITE_GEMINI_API_KEYS in your .env file.'', {}, [])
   \<and> (\<exists>trace. generateCode
       \<lparr>VITE_GEMINI_API_KEYS = [], SAMBANOVA_API_KEY = [], draw = (\<lambda>n. 0),
        gemini = (\<lambda>n k. Rejected ''offline''), JSON_parse = (\<lambda>s. None),
        sambaNova = (\<lambda>q. Threw ''down''), preprocess = (\<lambda>d. None),
        parseReactOutput = (\<lambda>s. Inr []), generateReactApp = (\<lambda>p. Inl ''network error'')\<rparr>
       ''a page'' [\<lparr>type = ''image'', data = ''data:image/png;base64,AAAA'', name = ''shot.png''\<rparr>] ''html'' {} = (Inl ''No Gemini API keys configured. Please set VITE_GEMINI_API_KEYS in your .env file.'', {}, trace))
   \<and> (\<exists>r failed' calls. optimizePrompt
       \<lparr>VITE_GEMINI_API_KEYS = ''k1'', SAMBANOVA_API_KEY = [], draw = (\<lambda>n. 0),
        gemini = (\<lambda>n k. Rejected ''offline''), JSON_parse = (\<lambda>s. None),
        sambaNova = (\<lambda>q. Threw ''down''), preprocess = (\<lambda>d. None),
        parseReactOutput = (\<lambda>s. Inr []), generateReactApp = (\<lambda>p. Inl ''network error'')\<rparr>
       ''a page'' [\<lparr>type = ''image'', data = ''data:image/png;base64,AAAA'', name = ''shot.png''\<rparr>] {} = (Inr r, failed', calls))
   \<and> (\<exists>r failed' trace. generateCode
       \<lparr>VITE_GEMINI_API_KEYS = ''k1'', SAMBANOVA_API_KEY = [], draw = (\<lambda>n. 0),
        gemini = (\<lambda>n k. Rejected ''offline''), JSON_parse = (\<lambda>s. None),
        sambaNova = (\<lambda>q. Threw ''down''), preprocess = (\<lambda>d. None),
        parseReactOutput = (\<lambda>s. Inr []), generateReactApp = (\<lambda>p. Inl ''network error'')\<rparr>
       ''a page'' [\<lparr>type = ''image'', data = ''data:image/png;base64,AAAA'', name = ''shot.png''\<rparr>] ''react'' {} = (Inr r, failed', trace))
   \<and> (\<exists>r. generateCode
       \<lparr>VITE_GEMINI_API_KEYS = [], SAMBANOVA_API_KEY = [], draw = (\<lambda>n. 0),
        gemini = (\<lambda>n k. Rejected ''offline''), JSON_parse = (\<lambda>s. None),
        sambaNova = (\<lambda>q. Threw ''down''), preprocess = (\<lambda>d. None),
        parseReactOutput = (\<lambda>s. Inr []), generateReactApp = (\<lambda>p. Inl ''network error'')\<rparr>
       ''a page'' [] ''html'' {} = (Inr r, {}, [SambaNovaPipeline])
       \<and> \<not> success r \<and> error r = Some ''SambaNova API key not configured. Please set VITE_SAMBANOVA_API_KEY in your environment.'')
   \<and> generateCode
       \<lparr>VITE_GEMINI_API_KEYS = [], SAMBANOVA_API_KEY = [], draw = (\<lambda>n. 0),
        gemini = (\<lambda>n k. Rejected ''offline''), JSON_parse = (\<lambda>s. None),
        sambaNova = (\<lambda>q. Threw ''down''), preprocess = (\<lambda>d. None),
        parseReactOutput = (\<lambda>s. Inr []), generateReactApp = (\<lambda>p. Inl ''network error'')\<rparr>
       ''a page'' [] ''react'' {} = (Inl ''network error'', {}, [SambaNovaPipeline])
   \<and> (\<exists>r. chat
       \<lparr>VITE_GEMINI_API_KEYS = [], SAMBANOVA_API_KEY = [], draw = (\<lambda>n. 0),
        gemini = (\<lambda>n k. Rejected ''offline''), JSON_parse = (\<lambda>s. None),
        sambaNova = (\<lambda>q. Threw ''down''), preprocess = (\<lambda>d. None),
        parseReactOutput = (\<lambda>s. Inr []), generateReactApp = (\<lambda>p. Inl ''network error'')\<rparr>
       ''What is flexbox?'' ''explanation''
       \<lparr>ctx_language = Undefined, ctx_cssCode = None, ctx_imageDescription = None,
        ctx_additionalContext = None\<rparr> = Inr r
       \<and> \<not> chat_success r \<and> chat_error r = Some ''SambaNova API key not configured. Please set VITE_SAMBANOVA_API_KEY in your environment.'' \<and> chat_content r = [])"
  (is "?a \<and> ?b \<and> ?c \<and> ?d \<and> ?e \<and> ?f \<and> ?g")
proof -
  let ?E0 = "\<lparr>VITE_GEMINI_API_KEYS = [], SAMBANOVA_API_KEY = [], draw = (\<lambda>n. 0),
        gemini = (\<lambda>n k. Rejected ''offline''), JSON_parse = (\<lambda>s. None),
        sambaNova = (\<lambda>q. Threw ''down''), preprocess = (\<lambda>d. None),
        parseReactOutput = (\<lambda>s. Inr []), generateReactApp = (\<lambda>p. Inl ''network error'')\<rparr>"
  let ?E1 = "\<lparr>VITE_GEMINI_API_KEYS = ''k1'', SAMBANOVA_API_KEY = [], draw = (\<lambda>n. 0),
        gemini = (\<lambda>n k. Rejected ''offline''), JSON_parse = (\<lambda>s. None),
        sambaNova = (\<lambda>q. Threw ''down''), preprocess = (\<lambda>d. None),
        parseReactOutput = (\<lambda>s. Inr []), generateReactApp = (\<lambda>p. Inl ''network error'')\<rparr>"
  let ?A = "[\<lparr>type = ''image'', data = ''data:image/png;base64,AAAA'', name = ''shot.png''\<rparr>]"
  let ?ctx = "\<lparr>ctx_language = Undefined, ctx_cssCode = None, ctx_imageDescription = None,
        ctx_additionalContext = None\<rparr>"
  have k0: "GEMINI_API_KEYS ?E0 = []" by code_simp
  have k1: "GEMINI_API_KEYS ?E1 \<noteq> []" by code_simp
  have s0: "SAMBANOVA_API_KEY ?E0 = []" by simp
  have img: "list_ex (\<lambda>a. type a = ''image'') ?A" by simp
  have noimg: "\<not> list_ex (\<lambda>a. type a = ''image'') ([] :: asset list)" by simp
  note t0 = entry_points_return_or_throw [of ?E0 "''a page''" ?A "{}" "''a page''" None None "''html''"
      "''What is flexbox?''" "''explanation''" ?ctx]
  note t1 = entry_points_return_or_throw [of ?E1 "''a page''" ?A "{}" "''a page''" None None "''react''"
      "''What is flexbox?''" "''explanation''" ?ctx]
  note t2 = entry_points_return_or_throw [of ?E0 "''a page''" "[]" "{}" "''a page''" None None "''html''"
      "''What is flexbox?''" "''explanation''" ?ctx]
  note t3 = entry_points_return_or_throw [of ?E0 "''a page''" "[]" "{}" "''a page''" None None "''react''"
      "''What is flexbox?''" "''explanation''" ?ctx]
  note none = mp [OF conjunct1 [OF t0] k0]
  have a: ?a using conjunct1 [OF none] by (simp add: noGeminiKeys_def)
  have b: ?b using mp [OF conjunct2 [OF conjunct2 [OF none]] img] by (simp add: noGeminiKeys_def)
  note some = mp [OF conjunct1 [OF conjunct2 [OF t1]] k1]
  have c: ?c by (rule conjunct1 [OF some])
  have d: ?d using conjunct2 [OF conjunct2 [OF conjunct2 [OF some]]] img by simp
  have e: ?e using conjunct1 [OF conjunct2 [OF conjunct2 [OF t2]]] noimg s0 by simp
  have f: ?f using conjunct1 [OF conjunct2 [OF conjunct2 [OF conjunct2 [OF t3]]]] noimg by simp
  have g: ?g using conjunct2 [OF conjunct2 [OF conjunct2 [OF conjunct2 [OF t0]]]] s0 by simp
  show ?thesis by (intro conjI a b c d e f g)
qed

text \<open>
  On the image path in HTML mode the router returns \<^verbatim>\<open>success = true\<close> only with HTML of
  at least 100 and CSS of at least 50 characters.
\<close>

lemma generateCode_image_path_gate:
  assumes img: "list_ex (\<lambda>a. type a = ''image'') assets"
    and fw: "fw \<noteq> ''react''"
    and run: "generateCode e prompt assets fw failed = (Inr r, failed', calls)"
    and ok: "success r"
  shows "\<exists>h c. html r = Some h \<and> css r = Some c \<and> 100 \<le> length h \<and> 50 \<le> length c"
proof -
  obtain design calls1 where d:
    "(case find (\<lambda>a. type a = ''image'') assets of
        None \<Rightarrow> (None, [])
      | Some a \<Rightarrow> (if data a \<noteq> [] then (preprocess e (data a), [Preprocessor]) else (None, [])))
     = (design, calls1)"
    by (cases "(case find (\<lambda>a. type a = ''image'') assets of
        None \<Rightarrow> (None, [])
      | Some a \<Rightarrow> (if data a \<noteq> [] then (preprocess e (data a), [Preprocessor]) else (None, [])))")
  obtain res f1 c1 where w: "generateWebPageWithImages e prompt assets design None failed = (res, f1, c1)"
    by (cases "generateWebPageWithImages e prompt assets design None failed")
  show ?thesis
  proof (cases res)
    case (Inl exn)
    with img fw run d w show ?thesis
      by (simp add: generateCode_def generateWithImage_def Let_def)
  next
    case (Inr r0)
    with img fw run d w
    have r: "r = r0\<lparr>pipeline := Some ''gemini'', framework := Some ''html'',
                     usedHF := Some (hasDesign design)\<rparr>"
      by (simp add: generateCode_def generateWithImage_def Let_def)
    with ok have ok0: "success r0" by simp
    from generateWebPageWithImages_success [OF w [unfolded Inr] ok0] r show ?thesis by auto
  qed
qed

text \<open>
  C1 fails on the text-only path. The request below has no image asset, so the router
  uses the SambaNova pipeline; the provider answers with status 200 and a text that
  holds no code. \<^verbatim>\<open>generateWebPage\<close> has no validation gate: the result is
  \<^verbatim>\<open>success = true\<close> with an empty \<^verbatim>\<open>html\<close> and an empty \<^verbatim>\<open>css\<close>.
\<close>

theorem generateCode_text_only_success_with_empty_page:
  "generateCode
     \<lparr>VITE_GEMINI_API_KEYS = ''k1'', SAMBANOVA_API_KEY = ''sk'', draw = (\<lambda>n. 0),
      gemini = (\<lambda>n k. Status429), JSON_parse = (\<lambda>s. None),
      sambaNova = (\<lambda>q. Content ''I cannot generate that page.''),
      preprocess = (\<lambda>d. None), parseReactOutput = (\<lambda>s. Inr []),
      generateReactApp = (\<lambda>p. Inl [])\<rparr>
     ''dark portfolio hero section'' [] ''html'' {}
   = (Inr \<lparr>success = True, error = None, html = Some [], css = Some [], files = None,
           rawContent = Some ''I cannot generate that page.'',
           usedImages = None, usedJSON = None, model = Some ''Qwen3-32B'',
           pipeline = Some ''sambanova'', framework = Some ''html'', usedHF = None,
           geminiCalls = None, fallback = None\<rparr>,
      {}, [SambaNovaPipeline])"
  by code_simp

end
